theory Spec2Isabelle
  imports Complex_Main
begin

section \<open>JavaScript values and numbers\<close>

text \<open>
  A JavaScript number is an IEEE-754 double: a finite value (\<open>Fin r\<close>, where \<open>Fin 0\<close> is the
  positive zero), the negative zero, the two infinities, or NaN. An arithmetic operation
  rounds its exact result to the nearest double, ties to even, with overflow to an infinity
  and gradual underflow down to a signed zero (\<open>round64\<close>). The type has \<open>Fin r\<close> for every
  real \<open>r\<close>; the operations return doubles only.
\<close>

datatype jsnum = Fin real | NegZero | PInf | NInf | NaN

datatype jsval = Undefined | Num jsnum

datatype error = DeveloperError string | TypeError

text \<open>
  \<open>defined(value)\<close> of Cesium: the value is neither undefined nor null (null is not among
  the values modelled here). \<open>defaultValue(a, b)\<close> is \<open>a\<close> when it is defined and \<open>b\<close>
  otherwise.
\<close>

fun defined :: "jsval \<Rightarrow> bool" where
  "defined Undefined = False"
| "defined (Num n) = True"

fun defaultValue :: "jsval \<Rightarrow> jsval \<Rightarrow> jsval" where
  "defaultValue Undefined b = b"
| "defaultValue (Num n) b = Num n"

text \<open>ToNumber: \<open>undefined\<close> becomes NaN.\<close>

fun to_number :: "jsval \<Rightarrow> jsnum" where
  "to_number Undefined = NaN"
| "to_number (Num n) = n"

subsection \<open>Rounding to a double\<close>

text \<open>The number of binary digits of a positive integer (0 for the others).\<close>

function bits :: "int \<Rightarrow> int" where
  "bits n = (if n \<le> 0 then 0 else 1 + bits (n div 2))"
  by pat_completeness auto
termination
  by (relation "measure nat") auto

text \<open>The exponent of a positive real \<open>a\<close>: the \<open>k\<close> with \<open>2^k \<le> a < 2^(k + 1)\<close>.\<close>

definition ilog2 :: "real \<Rightarrow> int" where
  "ilog2 a = (if 1 \<le> a then bits \<lfloor>a\<rfloor> - 1 else - bits (\<lceil>1 / a\<rceil> - 1))"

definition scale2 :: "int \<Rightarrow> real \<Rightarrow> real" where
  "scale2 e x = (if 0 \<le> e then x * 2 ^ nat e else x / 2 ^ nat (- e))"

definition round_half_even :: "real \<Rightarrow> int" where
  "round_half_even q =
     (let f = \<lfloor>q\<rfloor>; d = q - of_int f
      in if d < 1 / 2 then f else if 1 / 2 < d then f + 1 else if even f then f else f + 1)"

definition inf_of :: "bool \<Rightarrow> jsnum" where
  "inf_of neg = (if neg then NInf else PInf)"

definition zero_of :: "bool \<Rightarrow> jsnum" where
  "zero_of neg = (if neg then NegZero else Fin 0)"

text \<open>
  The double nearest to a real \<open>x\<close>: a multiple of \<open>2^e\<close>, where \<open>e\<close> leaves 53 binary
  digits to a normal value and is \<open>-1074\<close> for a subnormal one; a value that rounds to
  \<open>2^1024\<close> or beyond is an infinity, and one that rounds to 0 is the zero of its sign.
\<close>

definition round64 :: "real \<Rightarrow> jsnum" where
  "round64 x =
     (let a = \<bar>x\<bar>;
          e = max (ilog2 a - 52) (- 1074);
          m = round_half_even (scale2 (- e) a);
          r = scale2 e (of_int m)
      in if 2 ^ 1024 \<le> r then inf_of (x < 0)
         else if m = 0 then zero_of (x < 0)
         else Fin (if x < 0 then - r else r))"

subsection \<open>Arithmetic and comparison\<close>

fun is_inf :: "jsnum \<Rightarrow> bool" where
  "is_inf PInf = True"
| "is_inf NInf = True"
| "is_inf n = False"

fun is_zero :: "jsnum \<Rightarrow> bool" where
  "is_zero (Fin r) = (r = 0)"
| "is_zero NegZero = True"
| "is_zero n = False"

text \<open>The sign bit of a number that is not NaN.\<close>

fun is_neg :: "jsnum \<Rightarrow> bool" where
  "is_neg (Fin r) = (r < 0)"
| "is_neg NegZero = True"
| "is_neg NInf = True"
| "is_neg n = False"

text \<open>The real value of a finite number.\<close>

fun val :: "jsnum \<Rightarrow> real" where
  "val (Fin r) = r"
| "val n = 0"

fun js_neg :: "jsnum \<Rightarrow> jsnum" where
  "js_neg (Fin r) = (if r = 0 then NegZero else Fin (- r))"
| "js_neg NegZero = Fin 0"
| "js_neg PInf = NInf"
| "js_neg NInf = PInf"
| "js_neg NaN = NaN"

definition js_mul :: "jsnum \<Rightarrow> jsnum \<Rightarrow> jsnum" where
  "js_mul a b =
     (if a = NaN \<or> b = NaN then NaN
      else if is_inf a \<or> is_inf b
      then (if is_zero a \<or> is_zero b then NaN else inf_of (is_neg a \<noteq> is_neg b))
      else if is_zero a \<or> is_zero b then zero_of (is_neg a \<noteq> is_neg b)
      else round64 (val a * val b))"

definition js_div :: "jsnum \<Rightarrow> jsnum \<Rightarrow> jsnum" where
  "js_div a b =
     (if a = NaN \<or> b = NaN then NaN
      else if is_inf a then (if is_inf b then NaN else inf_of (is_neg a \<noteq> is_neg b))
      else if is_inf b then zero_of (is_neg a \<noteq> is_neg b)
      else if is_zero b then (if is_zero a then NaN else inf_of (is_neg a \<noteq> is_neg b))
      else if is_zero a then zero_of (is_neg a \<noteq> is_neg b)
      else round64 (val a / val b))"

definition js_sub :: "jsnum \<Rightarrow> jsnum \<Rightarrow> jsnum" where
  "js_sub a b =
     (if a = NaN \<or> b = NaN then NaN
      else if is_inf a then (if is_inf b \<and> is_neg a = is_neg b then NaN else a)
      else if is_inf b then inf_of (\<not> is_neg b)
      else if val a - val b = 0 then (if a = NegZero \<and> b = Fin 0 then NegZero else Fin 0)
      else round64 (val a - val b))"

definition js_lt :: "jsnum \<Rightarrow> jsnum \<Rightarrow> bool" where
  "js_lt a b =
     (a \<noteq> NaN \<and> b \<noteq> NaN \<and>
      (if a = NInf then b \<noteq> NInf
       else if a = PInf then False
       else if b = PInf then True
       else if b = NInf then False
       else val a < val b))"

text \<open>Equality of numbers: NaN equals nothing, and the two zeros are equal.\<close>

definition js_eq :: "jsnum \<Rightarrow> jsnum \<Rightarrow> bool" where
  "js_eq a b = (a \<noteq> NaN \<and> b \<noteq> NaN \<and> (a = b \<or> (is_zero a \<and> is_zero b)))"

text \<open>The comparison operators (less than, greater than, strict equality and inequality) on values.\<close>

definition val_lt :: "jsval \<Rightarrow> jsval \<Rightarrow> bool" where
  "val_lt a b = js_lt (to_number a) (to_number b)"

definition val_gt :: "jsval \<Rightarrow> jsval \<Rightarrow> bool" where
  "val_gt a b = js_lt (to_number b) (to_number a)"

fun strict_eq :: "jsval \<Rightarrow> jsval \<Rightarrow> bool" where
  "strict_eq Undefined Undefined = True"
| "strict_eq (Num a) (Num b) = js_eq a b"
| "strict_eq a b = False"

definition strict_neq :: "jsval \<Rightarrow> jsval \<Rightarrow> bool" where
  "strict_neq a b = (\<not> strict_eq a b)"

section \<open>Arrays\<close>

text \<open>
  A JavaScript array of numbers. A read outside the array gives \<open>undefined\<close>; a write
  beyond the end extends the array, the skipped slots reading as \<open>undefined\<close>.
\<close>

type_synonym js_array = "jsval list"

definition array_get :: "js_array \<Rightarrow> nat \<Rightarrow> jsval" where
  "array_get a i = (if i < length a then a ! i else Undefined)"

definition array_set :: "js_array \<Rightarrow> nat \<Rightarrow> jsval \<Rightarrow> js_array" where
  "array_set a i v =
     (if i < length a then a[i := v] else a @ replicate (i - length a) Undefined @ [v])"

section \<open>OrthographicFrustum\<close>

text \<open>
  The state of the off-center helper \<open>_offCenterFrustum\<close> that \<open>update\<close> writes
  (\<open>f.right\<close>, \<open>f.left\<close>, \<open>f.top\<close>, \<open>f.bottom\<close>, \<open>f.near\<close>, \<open>f.far\<close>).
\<close>

record offCenterFrustum =
  f_left :: jsval
  f_right :: jsval
  f_top :: jsval
  f_bottom :: jsval
  f_near :: jsval
  f_far :: jsval

text \<open>
  The fields of an OrthographicFrustum. The private fields \<open>_width\<close>, \<open>_aspectRatio\<close>,
  \<open>_near\<close>, \<open>_far\<close> are \<open>cached_width\<close>, \<open>cached_aspectRatio\<close>, \<open>cached_near\<close>,
  \<open>cached_far\<close>; \<open>_offCenterFrustum\<close> is \<open>offCenter\<close>.
\<close>

record frustum =
  offCenter :: offCenterFrustum
  width :: jsval
  cached_width :: jsval
  aspectRatio :: jsval
  cached_aspectRatio :: jsval
  near :: jsval
  cached_near :: jsval
  far :: jsval
  cached_far :: jsval

record frustum_options =
  opt_width :: jsval
  opt_aspectRatio :: jsval
  opt_near :: jsval
  opt_far :: jsval

definition EMPTY_OBJECT :: frustum_options where
  "EMPTY_OBJECT = \<lparr>opt_width = Undefined, opt_aspectRatio = Undefined,
                    opt_near = Undefined, opt_far = Undefined\<rparr>"

text \<open>
  The constructor. The constructor of the off-center helper is not part of the sources at
  hand, so the helper's initial state \<open>f0\<close> is a parameter.
\<close>

definition OrthographicFrustum_new :: "offCenterFrustum \<Rightarrow> frustum_options option \<Rightarrow> frustum" where
  "OrthographicFrustum_new f0 options =
     (let options = (case options of None \<Rightarrow> EMPTY_OBJECT | Some opts \<Rightarrow> opts);
          near0 = defaultValue (opt_near options) (Num (Fin 1));
          far0 = defaultValue (opt_far options) (Num (Fin 500000000))
      in \<lparr>offCenter = f0,
          width = opt_width options, cached_width = Undefined,
          aspectRatio = opt_aspectRatio options, cached_aspectRatio = Undefined,
          near = near0, cached_near = near0,
          far = far0, cached_far = far0\<rparr>)"

definition OrthographicFrustum_packedLength :: nat where
  "OrthographicFrustum_packedLength = 4"

definition OrthographicFrustum_pack :: "frustum \<Rightarrow> js_array \<Rightarrow> nat option \<Rightarrow> js_array" where
  "OrthographicFrustum_pack v array startingIndex =
     (let startingIndex = (case startingIndex of None \<Rightarrow> 0 | Some i \<Rightarrow> i);
          array = array_set array startingIndex (width v);
          array = array_set array (startingIndex + 1) (aspectRatio v);
          array = array_set array (startingIndex + 2) (near v);
          array = array_set array (startingIndex + 3) (far v)
      in array)"

definition OrthographicFrustum_unpack ::
  "offCenterFrustum \<Rightarrow> js_array \<Rightarrow> nat option \<Rightarrow> frustum option \<Rightarrow> frustum" where
  "OrthographicFrustum_unpack f0 array startingIndex result =
     (let startingIndex = (case startingIndex of None \<Rightarrow> 0 | Some i \<Rightarrow> i);
          result = (case result of None \<Rightarrow> OrthographicFrustum_new f0 None | Some r \<Rightarrow> r)
      in result\<lparr>width := array_get array startingIndex,
                aspectRatio := array_get array (startingIndex + 1),
                near := array_get array (startingIndex + 2),
                far := array_get array (startingIndex + 3)\<rparr>)"

text \<open>The test of \<open>update\<close> that a parameter differs from its cached value.\<close>

definition changed :: "frustum \<Rightarrow> bool" where
  "changed frustum =
     (strict_neq (width frustum) (cached_width frustum) \<or>
      strict_neq (aspectRatio frustum) (cached_aspectRatio frustum) \<or>
      strict_neq (near frustum) (cached_near frustum) \<or>
      strict_neq (far frustum) (cached_far frustum))"

text \<open>
  \<open>update(frustum)\<close>. A throw is \<open>Inl\<close>; every throw precedes the first write, so the
  frustum is then as it was. Otherwise the result is the frustum after the writes.
\<close>

definition update :: "frustum \<Rightarrow> error + frustum" where
  "update frustum =
     (if \<not> defined (width frustum) \<or> \<not> defined (aspectRatio frustum) \<or>
         \<not> defined (near frustum) \<or> \<not> defined (far frustum)
      then Inl (DeveloperError ''width, aspectRatio, near, or far parameters are not set.'')
      else
        let f = offCenter frustum in
        if changed frustum then
          if val_lt (aspectRatio frustum) (Num (Fin 0))
          then Inl (DeveloperError ''aspectRatio must be positive.'')
          else if val_lt (near frustum) (Num (Fin 0)) \<or> val_gt (near frustum) (far frustum)
          then Inl (DeveloperError ''near must be greater than zero and less than far.'')
          else
            let frustum = frustum\<lparr>cached_aspectRatio := aspectRatio frustum\<rparr>;
                frustum = frustum\<lparr>cached_width := width frustum\<rparr>;
                frustum = frustum\<lparr>cached_near := near frustum\<rparr>;
                frustum = frustum\<lparr>cached_far := far frustum\<rparr>;
                ratio = js_div (Fin 1) (to_number (aspectRatio frustum));
                f = f\<lparr>f_right := Num (js_mul (to_number (width frustum)) (Fin (1 / 2)))\<rparr>;
                f = f\<lparr>f_left := Num (js_neg (to_number (f_right f)))\<rparr>;
                f = f\<lparr>f_top := Num (js_mul ratio (to_number (f_right f)))\<rparr>;
                f = f\<lparr>f_bottom := Num (js_neg (to_number (f_top f)))\<rparr>;
                f = f\<lparr>f_near := near frustum\<rparr>;
                f = f\<lparr>f_far := far frustum\<rparr>
            in Inr (frustum\<lparr>offCenter := f\<rparr>)
        else Inr frustum)"

text \<open>
  The accessors that call \<open>update\<close> first and then delegate to the off-center helper.
  The helper's \<open>projectionMatrix\<close>, \<open>computeCullingVolume\<close>, \<open>equals\<close> and
  \<open>equalsEpsilon\<close> are not part of the sources at hand and are parameters.
\<close>

definition projectionMatrix :: "(offCenterFrustum \<Rightarrow> error + 'm) \<Rightarrow> frustum \<Rightarrow> error + 'm" where
  "projectionMatrix oc_projectionMatrix this =
     (case update this of
        Inl e \<Rightarrow> Inl e
      | Inr this \<Rightarrow> oc_projectionMatrix (offCenter this))"

definition computeCullingVolume ::
  "(offCenterFrustum \<Rightarrow> 'v \<Rightarrow> 'v \<Rightarrow> 'v \<Rightarrow> error + 'c) \<Rightarrow> frustum \<Rightarrow> 'v \<Rightarrow> 'v \<Rightarrow> 'v \<Rightarrow> error + 'c" where
  "computeCullingVolume oc_computeCullingVolume this position direction up =
     (case update this of
        Inl e \<Rightarrow> Inl e
      | Inr this \<Rightarrow> oc_computeCullingVolume (offCenter this) position direction up)"

datatype cartesian2 = Cartesian2 (c2_x: jsval) (c2_y: jsval)

text \<open>
  Modelled from the spec: \<open>OrthographicOffCenterFrustum.prototype.getPixelDimensions\<close> is
  not part of the sources at hand. The spec (4.4) gives the pixel size as
  \<open>(right-left)/bufferWidth\<close> and \<open>(top-bottom)/bufferHeight\<close>, the distance being accepted
  and not used; the sizes are stored in \<open>result\<close>, which is returned.
\<close>

definition OrthographicOffCenterFrustum_getPixelDimensions ::
  "offCenterFrustum \<Rightarrow> jsval \<Rightarrow> jsval \<Rightarrow> jsval \<Rightarrow> cartesian2 \<Rightarrow> cartesian2" where
  "OrthographicOffCenterFrustum_getPixelDimensions f drawingBufferWidth drawingBufferHeight distance result =
     (let frustumWidth = js_sub (to_number (f_right f)) (to_number (f_left f));
          frustumHeight = js_sub (to_number (f_top f)) (to_number (f_bottom f));
          pixelWidth = js_div frustumWidth (to_number drawingBufferWidth);
          pixelHeight = js_div frustumHeight (to_number drawingBufferHeight)
      in Cartesian2 (Num pixelWidth) (Num pixelHeight))"

definition getPixelDimensions ::
  "frustum \<Rightarrow> jsval \<Rightarrow> jsval \<Rightarrow> jsval \<Rightarrow> cartesian2 \<Rightarrow> error + cartesian2" where
  "getPixelDimensions this drawingBufferWidth drawingBufferHeight distance result =
     (case update this of
        Inl e \<Rightarrow> Inl e
      | Inr this \<Rightarrow>
          Inr (OrthographicOffCenterFrustum_getPixelDimensions (offCenter this)
                 drawingBufferWidth drawingBufferHeight distance result))"

text \<open>
  The argument of \<open>equals\<close> and \<open>equalsEpsilon\<close>: undefined, an object that is not an
  OrthographicFrustum, or an OrthographicFrustum.
\<close>

datatype other = OtherUndefined | OtherNotFrustum | OtherFrustum frustum

definition equals ::
  "(offCenterFrustum \<Rightarrow> offCenterFrustum \<Rightarrow> error + bool) \<Rightarrow> frustum \<Rightarrow> other \<Rightarrow> error + bool" where
  "equals oc_equals this other =
     (case other of
        OtherUndefined \<Rightarrow> Inr False
      | OtherNotFrustum \<Rightarrow> Inr False
      | OtherFrustum other \<Rightarrow>
          (case update this of
             Inl e \<Rightarrow> Inl e
           | Inr this \<Rightarrow>
               (case update other of
                  Inl e \<Rightarrow> Inl e
                | Inr other \<Rightarrow>
                    if strict_eq (width this) (width other) \<and>
                       strict_eq (aspectRatio this) (aspectRatio other)
                    then oc_equals (offCenter this) (offCenter other)
                    else Inr False)))"

definition equalsEpsilon ::
  "(jsval \<Rightarrow> jsval \<Rightarrow> jsval \<Rightarrow> jsval \<Rightarrow> bool) \<Rightarrow>
   (offCenterFrustum \<Rightarrow> offCenterFrustum \<Rightarrow> jsval \<Rightarrow> jsval \<Rightarrow> error + bool) \<Rightarrow>
   frustum \<Rightarrow> other \<Rightarrow> jsval \<Rightarrow> jsval \<Rightarrow> error + bool" where
  "equalsEpsilon math_equalsEpsilon oc_equalsEpsilon this other relativeEpsilon absoluteEpsilon =
     (case other of
        OtherUndefined \<Rightarrow> Inr False
      | OtherNotFrustum \<Rightarrow> Inr False
      | OtherFrustum other \<Rightarrow>
          (case update this of
             Inl e \<Rightarrow> Inl e
           | Inr this \<Rightarrow>
               (case update other of
                  Inl e \<Rightarrow> Inl e
                | Inr other \<Rightarrow>
                    if math_equalsEpsilon (width this) (width other) relativeEpsilon absoluteEpsilon \<and>
                       math_equalsEpsilon (aspectRatio this) (aspectRatio other)
                         relativeEpsilon absoluteEpsilon
                    then oc_equalsEpsilon (offCenter this) (offCenter other)
                           relativeEpsilon absoluteEpsilon
                    else Inr False)))"

section \<open>Geometry\<close>

datatype cartesian3 = Cartesian3 (c3_x: jsnum) (c3_y: jsnum) (c3_z: jsnum)

datatype componentDatatype = DOUBLE | FLOAT

datatype primitiveType = POINTS | LINES | LINE_LOOP | LINE_STRIP | TRIANGLES

text \<open>The field \<open>values\<close> of a GeometryAttribute is \<open>attribute_values\<close>.\<close>

record geometryAttribute =
  componentDatatype :: componentDatatype
  componentsPerAttribute :: nat
  attribute_values :: "jsnum list"

record boundingSphere =
  center :: cartesian3
  radius :: jsnum

text \<open>
  A Geometry: the attributes by name, the index buffer, the topology and the optional
  bounding sphere (the fields \<open>attributes\<close>, \<open>indices\<close>, \<open>primitiveType\<close> and
  \<open>boundingSphere\<close>, here with the prefix \<open>geom_\<close>). The index buffer is a list of naturals: the typed array that
  \<open>IndexDatatype.createTypedArray\<close> chooses for the vertex count is not part of the sources
  at hand and is taken to hold every vertex index.
\<close>

record geometry =
  geom_attributes :: "(string \<times> geometryAttribute) list"
  geom_indices :: "nat list"
  geom_primitiveType :: primitiveType
  geom_boundingSphere :: "boundingSphere option"

text \<open>
  The loop of \<open>createGeometryFromPositions\<close>. Both buffers are typed arrays of a fixed
  length; a write outside a typed array has no effect, as a list update outside the list.
\<close>

function createGeometryFromPositions_loop ::
  "cartesian3 list \<Rightarrow> nat \<Rightarrow> jsnum list \<Rightarrow> nat list \<Rightarrow> nat \<Rightarrow> nat \<Rightarrow> jsnum list \<times> nat list" where
  "createGeometryFromPositions_loop positions i flatPositions indices positionIndex index =
     (if i < length positions then
        let position = positions ! i;
            flatPositions = flatPositions[positionIndex := c3_x position];
            flatPositions = flatPositions[positionIndex + 1 := c3_y position];
            flatPositions = flatPositions[positionIndex + 2 := c3_z position];
            indices = indices[index := i];
            indices = indices[index + 1 := (i + 1) mod length positions]
        in createGeometryFromPositions_loop positions (i + 1) flatPositions indices
             (positionIndex + 3) (index + 2)
      else (flatPositions, indices))"
  by pat_completeness auto
termination
  by (relation "measure (\<lambda>(positions, i, rest). length positions - i)") auto

definition createGeometryFromPositions :: "cartesian3 list \<Rightarrow> geometry" where
  "createGeometryFromPositions positions =
     (let len = length positions;
          flatPositions = replicate (len * 3) (Fin 0);
          indices = replicate (len * 2) 0;
          (flatPositions, indices) =
             createGeometryFromPositions_loop positions 0 flatPositions indices 0 0;
          attributes = [(''position'',
             \<lparr>componentDatatype = DOUBLE, componentsPerAttribute = 3, attribute_values = flatPositions\<rparr>)]
      in \<lparr>geom_attributes = attributes, geom_indices = indices, geom_primitiveType = LINES,
          geom_boundingSphere = None\<rparr>)"

subsection \<open>PlaneOutlineGeometry\<close>

definition plane_min :: cartesian3 where
  "plane_min = Cartesian3 (Fin (- (1 / 2))) (Fin (- (1 / 2))) (Fin 0)"

definition plane_max :: cartesian3 where
  "plane_max = Cartesian3 (Fin (1 / 2)) (Fin (1 / 2)) (Fin 0)"

definition Cartesian3_ZERO :: cartesian3 where
  "Cartesian3_ZERO = Cartesian3 (Fin 0) (Fin 0) (Fin 0)"

text \<open>\<open>Math.sqrt(2.0)\<close>: the double nearest to the square root of 2.\<close>

definition sqrt_2 :: jsnum where
  "sqrt_2 = Fin (6369051672525773 / 4503599627370496)"

definition PlaneOutlineGeometry_createGeometry :: geometry where
  "PlaneOutlineGeometry_createGeometry =
     (let indices = replicate (4 * 2) (0::nat);
          positions = replicate (4 * 3) (Fin 0);
          positions = positions[0 := c3_x plane_min];
          positions = positions[1 := c3_y plane_min];
          positions = positions[2 := c3_z plane_min];
          positions = positions[3 := c3_x plane_max];
          positions = positions[4 := c3_y plane_min];
          positions = positions[5 := c3_z plane_min];
          positions = positions[6 := c3_x plane_max];
          positions = positions[7 := c3_y plane_max];
          positions = positions[8 := c3_z plane_min];
          positions = positions[9 := c3_x plane_min];
          positions = positions[10 := c3_y plane_max];
          positions = positions[11 := c3_z plane_min];
          attributes = [(''position'',
             \<lparr>componentDatatype = DOUBLE, componentsPerAttribute = 3, attribute_values = positions\<rparr>)];
          indices = indices[0 := 0];
          indices = indices[1 := 1];
          indices = indices[2 := 1];
          indices = indices[3 := 2];
          indices = indices[4 := 2];
          indices = indices[5 := 3];
          indices = indices[6 := 3];
          indices = indices[7 := 0]
      in \<lparr>geom_attributes = attributes, geom_indices = indices, geom_primitiveType = LINES,
          geom_boundingSphere = Some \<lparr>center = Cartesian3_ZERO, radius = sqrt_2\<rparr>\<rparr>)"

section \<open>Polygon hierarchies and their packed form\<close>

text \<open>
  A polygon hierarchy: the ring of positions and the holes, each a hierarchy again
  (the fields \<open>positions\<close> and \<open>holes\<close>).
\<close>

datatype polygonHierarchy =
  PolygonHierarchy (h_positions: "cartesian3 list") (h_holes: "polygonHierarchy list")

text \<open>
  Modelled from the spec: \<open>PolygonGeometryLibrary.computeHierarchyPackedLength\<close> is not part
  of the sources at hand. The spec (4.1) sums, for each node, 1 for the ring length marker,
  3 for each position of the ring, 1 for the hole count marker, and the packed length of
  each hole.
\<close>

fun computeHierarchyPackedLength :: "polygonHierarchy \<Rightarrow> nat" where
  "computeHierarchyPackedLength (PolygonHierarchy positions holes) =
     1 + 3 * length positions + 1 + sum_list (map computeHierarchyPackedLength holes)"

text \<open>
  Modelled from the spec: the part of \<open>packPolygonHierarchy\<close> (not part of the sources at
  hand) that writes the three components of each position of a ring, in order (spec, 4.1
  and 6).
\<close>

fun packPositions :: "cartesian3 list \<Rightarrow> js_array \<Rightarrow> nat \<Rightarrow> js_array \<times> nat" where
  "packPositions [] array startIndex = (array, startIndex)"
| "packPositions (p # ps) array startIndex =
     (let array = array_set array startIndex (Num (c3_x p));
          array = array_set array (startIndex + 1) (Num (c3_y p));
          array = array_set array (startIndex + 2) (Num (c3_z p))
      in packPositions ps array (startIndex + 3))"

text \<open>
  Modelled from the spec: \<open>PolygonGeometryLibrary.packPolygonHierarchy\<close> is not part of the
  sources at hand. The spec (4.1) has it write depth-first, in pre-order: the ring length,
  the three components of each position, the hole count, then each hole packed the same
  way; it returns the next free index (here with the array written).
\<close>

fun packPolygonHierarchy :: "polygonHierarchy \<Rightarrow> js_array \<Rightarrow> nat \<Rightarrow> js_array \<times> nat" where
  "packPolygonHierarchy (PolygonHierarchy positions holes) array startIndex =
     (let array = array_set array startIndex (Num (Fin (real (length positions))));
          (array, startIndex) = packPositions positions array (startIndex + 1);
          array = array_set array startIndex (Num (Fin (real (length holes))))
      in fold (\<lambda>hole (array, startIndex). packPolygonHierarchy hole array startIndex)
           holes (array, startIndex + 1))"

text \<open>
  Modelled from the spec: the parts of \<open>unpackPolygonHierarchy\<close> (not part of the sources at
  hand) that read a marker and the positions of a ring. A ring length or a hole count is a
  finite number that is a natural, and a coordinate is a number; anything else makes the
  buffer malformed (spec, 7). A ring length of 0 reads no position (spec, 4.1).
\<close>

fun count_of :: "jsval \<Rightarrow> nat option" where
  "count_of (Num (Fin r)) = (if 0 \<le> r \<and> r = of_int \<lfloor>r\<rfloor> then Some (nat \<lfloor>r\<rfloor>) else None)"
| "count_of v = None"

fun unpackPositions :: "js_array \<Rightarrow> nat \<Rightarrow> nat \<Rightarrow> cartesian3 list option" where
  "unpackPositions array startIndex 0 = Some []"
| "unpackPositions array startIndex (Suc n) =
     (case (array_get array startIndex, array_get array (startIndex + 1),
            array_get array (startIndex + 2)) of
        (Num x, Num y, Num z) \<Rightarrow>
          (case unpackPositions array (startIndex + 3) n of
             None \<Rightarrow> None
           | Some ps \<Rightarrow> Some (Cartesian3 x y z # ps))
      | _ \<Rightarrow> None)"

text \<open>
  Modelled from the spec: \<open>PolygonGeometryLibrary.unpackPolygonHierarchy\<close> is not part of the
  sources at hand. The spec (4.1) has it read what pack writes: the ring length, that many
  positions (none for a ring length of 0), the hole count, then that many holes, each read
  the same way; it returns the hierarchy and the next index. A malformed buffer gives an
  absent result (spec, 7). The nesting that is followed is bounded by the fuel, and
  \<open>unpackPolygonHierarchy\<close> gives the length of the array as fuel.
\<close>

fun unpack_fuel :: "nat \<Rightarrow> js_array \<Rightarrow> nat \<Rightarrow> (polygonHierarchy \<times> nat) option"
and unpack_holes :: "nat \<Rightarrow> js_array \<Rightarrow> nat \<Rightarrow> nat \<Rightarrow> (polygonHierarchy list \<times> nat) option" where
  "unpack_fuel 0 array startIndex = None"
| "unpack_fuel (Suc fuel) array startIndex =
     (case count_of (array_get array startIndex) of
        None \<Rightarrow> None
      | Some ringLen \<Rightarrow>
          (case unpackPositions array (startIndex + 1) ringLen of
             None \<Rightarrow> None
           | Some positions \<Rightarrow>
               (case count_of (array_get array (startIndex + 1 + 3 * ringLen)) of
                  None \<Rightarrow> None
                | Some holeCount \<Rightarrow>
                    (case unpack_holes fuel array (startIndex + 1 + 3 * ringLen + 1) holeCount of
                       None \<Rightarrow> None
                     | Some (holes, nextIndex) \<Rightarrow>
                         Some (PolygonHierarchy positions holes, nextIndex)))))"
| "unpack_holes fuel array startIndex 0 = Some ([], startIndex)"
| "unpack_holes fuel array startIndex (Suc n) =
     (case unpack_fuel fuel array startIndex of
        None \<Rightarrow> None
      | Some (hole, nextIndex) \<Rightarrow>
          (case unpack_holes fuel array nextIndex n of
             None \<Rightarrow> None
           | Some (holes, endIndex) \<Rightarrow> Some (hole # holes, endIndex)))"

text \<open>
  Modelled from the spec: \<open>unpackPolygonHierarchy(array, startIndex)\<close> of the spec (4.1),
  with the length of the array as the bound of the nesting.
\<close>

definition unpackPolygonHierarchy :: "js_array \<Rightarrow> nat \<Rightarrow> (polygonHierarchy \<times> nat) option" where
  "unpackPolygonHierarchy array startIndex = unpack_fuel (length array) array startIndex"

text \<open>
  Modelled from the spec: the layout of a packed hierarchy (spec, 6), as a list: the ring
  length, the coordinates of each position, the hole count, then each hole in the same
  layout.
\<close>

fun encode_positions :: "cartesian3 list \<Rightarrow> jsval list" where
  "encode_positions [] = []"
| "encode_positions (p # ps) = Num (c3_x p) # Num (c3_y p) # Num (c3_z p) # encode_positions ps"

fun encode :: "polygonHierarchy \<Rightarrow> jsval list" where
  "encode (PolygonHierarchy positions holes) =
     Num (Fin (real (length positions))) # encode_positions positions @
     Num (Fin (real (length holes))) # concat (map encode holes)"

section \<open>CoplanarPolygonOutlineGeometry\<close>

text \<open>
  The fields \<open>_polygonHierarchy\<close>, \<open>_workerName\<close> and \<open>packedLength\<close>. The packed length
  is a value: \<open>unpack\<close> stores whatever the array holds there.
\<close>

record coplanarPolygonOutlineGeometry =
  outline_polygonHierarchy :: polygonHierarchy
  outline_workerName :: string
  outline_packedLength :: jsval

text \<open>
  The constructor; \<open>options.polygonHierarchy\<close> is its argument, and the debug check
  \<open>Check.defined\<close> throws when it is undefined.
\<close>

definition CoplanarPolygonOutlineGeometry_new ::
  "polygonHierarchy option \<Rightarrow> error + coplanarPolygonOutlineGeometry" where
  "CoplanarPolygonOutlineGeometry_new options_polygonHierarchy =
     (case options_polygonHierarchy of
        None \<Rightarrow> Inl (DeveloperError ''options.polygonHierarchy is required, actual value was undefined'')
      | Some polygonHierarchy \<Rightarrow>
          Inr \<lparr>outline_polygonHierarchy = polygonHierarchy,
               outline_workerName = ''createCoplanarPolygonOutlineGeometry'',
               outline_packedLength =
                 Num (Fin (real (computeHierarchyPackedLength polygonHierarchy + 1)))\<rparr>)"

definition fromPositions :: "cartesian3 list option \<Rightarrow> error + coplanarPolygonOutlineGeometry" where
  "fromPositions options_positions =
     (case options_positions of
        None \<Rightarrow> Inl (DeveloperError ''options.positions is required, actual value was undefined'')
      | Some positions \<Rightarrow> CoplanarPolygonOutlineGeometry_new (Some (PolygonHierarchy positions [])))"

definition CoplanarPolygonOutlineGeometry_pack ::
  "coplanarPolygonOutlineGeometry \<Rightarrow> js_array \<Rightarrow> nat option \<Rightarrow> js_array" where
  "CoplanarPolygonOutlineGeometry_pack v array startingIndex =
     (let startingIndex = (case startingIndex of None \<Rightarrow> 0 | Some i \<Rightarrow> i);
          (array, startingIndex) =
             packPolygonHierarchy (outline_polygonHierarchy v) array startingIndex;
          array = array_set array startingIndex (outline_packedLength v)
      in array)"

text \<open>The object \<open>scratchOptions\<close>, whose hierarchy has neither positions nor holes.\<close>

definition scratchOptions :: polygonHierarchy where
  "scratchOptions = PolygonHierarchy [] []"

text \<open>
  \<open>unpack\<close>. When the hierarchy cannot be read the result of
  \<open>unpackPolygonHierarchy\<close> is absent, and reading its \<open>startingIndex\<close> is a TypeError.
\<close>

definition CoplanarPolygonOutlineGeometry_unpack ::
  "js_array \<Rightarrow> nat option \<Rightarrow> coplanarPolygonOutlineGeometry option \<Rightarrow>
   error + coplanarPolygonOutlineGeometry" where
  "CoplanarPolygonOutlineGeometry_unpack array startingIndex result =
     (let startingIndex = (case startingIndex of None \<Rightarrow> 0 | Some i \<Rightarrow> i) in
      case unpackPolygonHierarchy array startingIndex of
        None \<Rightarrow> Inl TypeError
      | Some (polygonHierarchy, startingIndex) \<Rightarrow>
          (let packedLength = array_get array startingIndex in
           case (case result of
                   None \<Rightarrow> CoplanarPolygonOutlineGeometry_new (Some scratchOptions)
                 | Some r \<Rightarrow> Inr r) of
             Inl e \<Rightarrow> Inl e
           | Inr result \<Rightarrow>
               Inr (result\<lparr>outline_polygonHierarchy := polygonHierarchy,
                           outline_packedLength := packedLength\<rparr>)))"

datatype geometryInstance = GeometryInstance (instance_geometry: geometry)

text \<open>
  \<open>createGeometry\<close>. The functions \<open>arrayRemoveDuplicates\<close> (with
  \<open>Cartesian3.equalsEpsilon\<close> and wrap-around), \<open>validOutline\<close>,
  \<open>polygonOutlinesFromHierarchy\<close>, \<open>combineInstances\<close> and \<open>BoundingSphere.fromPoints\<close> are
  not part of the sources at hand and are parameters. The result \<open>None\<close> is
  \<open>undefined\<close>; reading a field of the first combined geometry when there is none is a
  TypeError.
\<close>

definition CoplanarPolygonOutlineGeometry_createGeometry ::
  "(cartesian3 list \<Rightarrow> cartesian3 list) \<Rightarrow> (cartesian3 list \<Rightarrow> bool) \<Rightarrow>
   (polygonHierarchy \<Rightarrow> cartesian3 list list) \<Rightarrow> (geometryInstance list \<Rightarrow> geometry list) \<Rightarrow>
   (cartesian3 list \<Rightarrow> boundingSphere) \<Rightarrow>
   coplanarPolygonOutlineGeometry \<Rightarrow> error + geometry option" where
  "CoplanarPolygonOutlineGeometry_createGeometry arrayRemoveDuplicates validOutline
     polygonOutlinesFromHierarchy combineInstances fromPoints polygonGeometry =
     (let polygonHierarchy = outline_polygonHierarchy polygonGeometry;
          outerPositions = h_positions polygonHierarchy;
          outerPositions = arrayRemoveDuplicates outerPositions
      in if length outerPositions < 3 then Inr None
         else
           let isValid = validOutline outerPositions
           in if \<not> isValid then Inr None
              else
                let polygons = polygonOutlinesFromHierarchy polygonHierarchy
                in if length polygons = 0 then Inr None
                   else
                     let geometries =
                           map (\<lambda>polygon. GeometryInstance (createGeometryFromPositions polygon))
                             polygons
                     in case combineInstances geometries of
                          [] \<Rightarrow> Inl TypeError
                        | geometry # rest \<Rightarrow>
                            let boundingSphere = fromPoints (h_positions polygonHierarchy)
                            in Inr (Some \<lparr>geom_attributes = geom_attributes geometry,
                                          geom_indices = geom_indices geometry,
                                          geom_primitiveType = geom_primitiveType geometry,
                                          geom_boundingSphere = Some boundingSphere\<rparr>))"

section \<open>Auxiliary definitions\<close>

text \<open>The array holds the list \<open>xs\<close> from index \<open>i\<close> on.\<close>

fun holds_at :: "js_array \<Rightarrow> nat \<Rightarrow> jsval list \<Rightarrow> bool" where
  "holds_at a i [] = True"
| "holds_at a i (x # xs) = (array_get a i = x \<and> holds_at a (Suc i) xs)"

text \<open>
  Example values. The off-center helper of the examples has no bounds set; the example
  frustum is built by the constructor from the four options.
\<close>

definition example_offCenter :: offCenterFrustum where
  "example_offCenter = \<lparr>f_left = Undefined, f_right = Undefined, f_top = Undefined,
     f_bottom = Undefined, f_near = Num (Fin 1), f_far = Num (Fin 500000000)\<rparr>"

definition example_frustum :: "jsval \<Rightarrow> jsval \<Rightarrow> jsval \<Rightarrow> jsval \<Rightarrow> frustum" where
  "example_frustum w a n f =
     OrthographicFrustum_new example_offCenter
       (Some \<lparr>opt_width = w, opt_aspectRatio = a, opt_near = n, opt_far = f\<rparr>)"

text \<open>The example frustum of width 2, aspect ratio 2, near 1 and far 10 after \<open>update\<close>.\<close>

definition updated_example :: frustum where
 "updated_example = \<lparr>offCenter = \<lparr>f_left = Num (Fin (- 1)), f_right = Num (Fin 1), f_top = Num (Fin (1/2)),
     f_bottom = Num (Fin (- (1/2))), f_near = Num (Fin 1), f_far = Num (Fin 10)\<rparr>,
     width = Num (Fin 2), cached_width = Num (Fin 2), aspectRatio = Num (Fin 2), cached_aspectRatio = Num (Fin 2),
     near = Num (Fin 1), cached_near = Num (Fin 1), far = Num (Fin 10), cached_far = Num (Fin 10)\<rparr>"

definition example_ring :: "cartesian3 list" where
  "example_ring = [Cartesian3 (Fin 0) (Fin 0) (Fin 0), Cartesian3 (Fin 1) (Fin 0) (Fin 0),
                   Cartesian3 (Fin 1) (Fin 1) (Fin 0)]"

definition example_hierarchy :: polygonHierarchy where
  "example_hierarchy = PolygonHierarchy example_ring [PolygonHierarchy [] []]"

definition example_outline :: coplanarPolygonOutlineGeometry where
  "example_outline = \<lparr>outline_polygonHierarchy = example_hierarchy,
      outline_workerName = ''createCoplanarPolygonOutlineGeometry'',
      outline_packedLength = Num (Fin 14)\<rparr>"

definition example_degenerate :: coplanarPolygonOutlineGeometry where
  "example_degenerate =
     \<lparr>outline_polygonHierarchy =
        PolygonHierarchy [Cartesian3 (Fin 0) (Fin 0) (Fin 0), Cartesian3 (Fin 0) (Fin 0) (Fin 0),
                          Cartesian3 (Fin 1) (Fin 0) (Fin 0)] [],
      outline_workerName = ''createCoplanarPolygonOutlineGeometry'',
      outline_packedLength = Num (Fin 12)\<rparr>"

text \<open>
  The example frustum of width 10, aspect ratio 3, near 1 and far 10 after \<open>update\<close>: its
  top bound is the double \<open>(1.0 / 3) * 5 = 1.6666666666666665\<close>.
\<close>

definition updated_thirds :: frustum where
  "updated_thirds =
     \<lparr>offCenter = \<lparr>f_left = Num (Fin (- 5)), f_right = Num (Fin 5),
         f_top = Num (Fin (3752999689475413 / 2251799813685248)),
         f_bottom = Num (Fin (- (3752999689475413 / 2251799813685248))),
         f_near = Num (Fin 1), f_far = Num (Fin 10)\<rparr>,
      width = Num (Fin 10), cached_width = Num (Fin 10),
      aspectRatio = Num (Fin 3), cached_aspectRatio = Num (Fin 3),
      near = Num (Fin 1), cached_near = Num (Fin 1), far = Num (Fin 10), cached_far = Num (Fin 10)\<rparr>"

text \<open>A frustum as the constructor builds it, on a helper that holds other bounds.\<close>

definition stale_frustum :: "jsval \<Rightarrow> jsval \<Rightarrow> jsval \<Rightarrow> jsval \<Rightarrow> frustum" where
  "stale_frustum w a n f =
     OrthographicFrustum_new
       \<lparr>f_left = Num (Fin 7), f_right = Num (Fin 7), f_top = Num (Fin 7),
        f_bottom = Num (Fin 7), f_near = Num (Fin 7), f_far = Num (Fin 7)\<rparr>
       (Some \<lparr>opt_width = w, opt_aspectRatio = a, opt_near = n, opt_far = f\<rparr>)"

declare createGeometryFromPositions_loop.simps [simp del]

declare bits.simps [simp del]

section \<open>Numbers and arrays\<close>

lemma array_get_set: "array_get (array_set a i v) j = (if j = i then v else array_get a j)"
  by (auto simp: array_get_def array_set_def nth_append)

lemma length_array_set: "length (array_set a i v) = max (length a) (Suc i)"
  by (auto simp: array_set_def)

lemma bits_numeral: "bits (numeral k) = 1 + bits (numeral k div 2)"
  by (subst bits.simps) simp

lemma bits_0: "bits 0 = 0"
  by (simp add: bits.simps)

lemma bits_1: "bits 1 = 1"
  by (simp add: bits.simps)

lemmas round64_eval = round64_def ilog2_def scale2_def round_half_even_def Let_def
  inf_of_def zero_of_def bits_numeral bits_0 bits_1

text \<open>Doubles round to themselves; a third and five thirds do not.\<close>

lemma round64_examples:
  "round64 1 = Fin 1" "round64 (1 / 2) = Fin (1 / 2)" "round64 2 = Fin 2" "round64 5 = Fin 5"
  "round64 (1 / 3) = Fin (6004799503160661 / 18014398509481984)"
  "round64 (5 / 3) = Fin (7505999378950827 / 4503599627370496)"
  "round64 (6004799503160661 / 18014398509481984 * 5) = Fin (3752999689475413 / 2251799813685248)"
  by (simp_all add: round64_eval)

text \<open>The constant for the square root of 2 is within half a unit in the last place of it.\<close>

lemma sqrt_2_nearest:
  "sqrt_2 = Fin (6369051672525773 / 2 ^ 52) \<and>
   (6369051672525773 / 2 ^ 52 - 1 / 2 ^ 53) ^ 2 < (2::real) \<and>
   (2::real) < (6369051672525773 / 2 ^ 52 + 1 / 2 ^ 53) ^ 2"
  by (simp add: sqrt_2_def power2_eq_square)

text \<open>Division by a zero gives the infinity of the combined sign.\<close>

lemma js_div_zero: "js_div (Fin 1) (Fin 0) = PInf" "js_div (Fin 1) NegZero = NInf"
  by (simp_all add: js_div_def inf_of_def)

text \<open>Halving by a product and by a quotient round the same exact value.\<close>

lemma js_half: "js_mul w (Fin (1 / 2)) = js_div w (Fin 2)"
  by (cases w) (simp_all add: js_mul_def js_div_def)

lemma js_lt_asym: "js_lt a b \<Longrightarrow> \<not> js_lt b a"
  by (cases a; cases b) (auto simp: js_lt_def)

section \<open>Properties of the orthographic frustum\<close>

lemmas frustum_eval = example_frustum_def example_offCenter_def OrthographicFrustum_new_def
  EMPTY_OBJECT_def update_def changed_def strict_neq_def val_lt_def val_gt_def
  js_lt_def js_eq_def js_mul_def js_div_def js_sub_def round64_eval

lemma update_example: "update (example_frustum (Num (Fin 2)) (Num (Fin 2)) (Num (Fin 1)) (Num (Fin 10))) = Inr updated_example"
  by (simp add: frustum_eval updated_example_def)

lemma changed_example: "changed (example_frustum (Num (Fin 2)) (Num (Fin 2)) (Num (Fin 1)) (Num (Fin 10)))"
  by (simp add: frustum_eval)

text \<open>
  What \<open>update\<close> checks: an unset parameter is refused; after a change, a negative aspect
  ratio, a negative near distance and a near distance beyond far are refused; a positive
  aspect ratio with \<open>0 \<le> near < far\<close> is accepted.
\<close>

lemma update_unset:
  "width fr = Undefined \<or> aspectRatio fr = Undefined \<or> near fr = Undefined \<or> far fr = Undefined
   \<Longrightarrow> update fr = Inl (DeveloperError ''width, aspectRatio, near, or far parameters are not set.'')"
  by (auto simp: update_def)

lemma update_out_of_range:
  assumes "width fr = Num w" "aspectRatio fr = Num a" "near fr = Num n" "far fr = Num f"
    and "changed fr" and "js_lt a (Fin 0) \<or> js_lt n (Fin 0) \<or> js_lt f n"
  shows "\<exists>msg. update fr = Inl (DeveloperError msg)"
  using assms by (auto simp: update_def val_lt_def val_gt_def Let_def)

lemma update_valid:
  assumes "width fr = Num w" "aspectRatio fr = Num a" "near fr = Num n" "far fr = Num f"
    and "js_lt (Fin 0) a" "\<not> js_lt n (Fin 0)" "js_lt n f"
  shows "\<exists>fr'. update fr = Inr fr'"
proof -
  have "\<not> js_lt a (Fin 0)" using assms(5) by (rule js_lt_asym)
  moreover have "\<not> js_lt f n" using assms(7) by (rule js_lt_asym)
  ultimately show ?thesis using assms
    by (simp add: update_def val_lt_def val_gt_def Let_def)
qed

text \<open>
  Claim C1. \<open>update\<close> is to fail when a parameter is unset and, after a change, when
  \<open>aspectRatio \<le> 0\<close>, \<open>near < 0\<close> or \<open>near \<ge> far\<close>. The code tests \<open>aspectRatio < 0\<close> and
  \<open>near > far\<close>: a frustum of aspect ratio 0 is accepted (its top bound becomes infinite),
  and so is a frustum whose near distance equals its far distance, although the messages
  of the two checks read ``aspectRatio must be positive'' and ``near must be ... less than
  far''.
\<close>

theorem update_accepts_zero_aspectRatio_and_near_eq_far:
  "(\<exists>fr'. update (example_frustum (Num (Fin 2)) (Num (Fin 0)) (Num (Fin 1)) (Num (Fin 10))) = Inr fr'
       \<and> f_top (offCenter fr') = Num PInf) \<and>
   (\<exists>fr'. update (example_frustum (Num (Fin 2)) (Num (Fin 1)) (Num (Fin 5)) (Num (Fin 5))) = Inr fr'
       \<and> f_near (offCenter fr') = f_far (offCenter fr'))"
  by (simp add: frustum_eval)

theorem update_accepts_zero_aspectRatio_and_near_eq_far_witness:
  "(\<exists>fr'. update (example_frustum (Num (Fin 2)) (Num (Fin 0)) (Num (Fin 1)) (Num (Fin 10))) = Inr fr') \<and>
   (\<exists>fr'. update (example_frustum (Num (Fin 2)) (Num (Fin 1)) (Num (Fin 5)) (Num (Fin 5))) = Inr fr')"
  using update_accepts_zero_aspectRatio_and_near_eq_far by blast

text \<open>
  The example frustum of width 10 and aspect ratio 3: \<open>update\<close> succeeds, and its top bound
  \<open>(1.0 / 3) * 5\<close> is the double below \<open>5 / 3\<close>.
\<close>

lemma update_thirds:
  "update (example_frustum (Num (Fin 10)) (Num (Fin 3)) (Num (Fin 1)) (Num (Fin 10))) = Inr updated_thirds"
  by (simp add: frustum_eval updated_thirds_def)

lemma changed_thirds:
  "changed (example_frustum (Num (Fin 10)) (Num (Fin 3)) (Num (Fin 1)) (Num (Fin 10)))"
  by (simp add: frustum_eval)

text \<open>
  Claim C6, as stated, fails: for width 10 and aspect ratio 3 a parameter differs from its
  cached value and \<open>update\<close> succeeds, but the top bound it stores is not
  \<open>right/aspectRatio\<close>.
\<close>

theorem update_top_counterexample:
  "changed (example_frustum (Num (Fin 10)) (Num (Fin 3)) (Num (Fin 1)) (Num (Fin 10))) \<and>
   update (example_frustum (Num (Fin 10)) (Num (Fin 3)) (Num (Fin 1)) (Num (Fin 10))) =
     Inr updated_thirds \<and>
   f_top (offCenter updated_thirds) \<noteq>
     Num (js_div (to_number (f_right (offCenter updated_thirds)))
            (to_number (aspectRatio
               (example_frustum (Num (Fin 10)) (Num (Fin 3)) (Num (Fin 1)) (Num (Fin 10))))))"
proof -
  have "js_div (Fin 5) (Fin 3) = Fin (7505999378950827 / 4503599627370496)"
    by (simp add: js_div_def round64_eval)
  then have "f_top (offCenter updated_thirds) \<noteq>
     Num (js_div (to_number (f_right (offCenter updated_thirds)))
            (to_number (aspectRatio
               (example_frustum (Num (Fin 10)) (Num (Fin 3)) (Num (Fin 1)) (Num (Fin 10))))))"
    by (simp add: updated_thirds_def example_frustum_def OrthographicFrustum_new_def Let_def)
  with changed_thirds update_thirds show ?thesis by (intro conjI)
qed

text \<open>
  Claim C6, amended. When a parameter differs from its cached value and \<open>update\<close> succeeds,
  the off-center helper holds \<open>right = width/2\<close>, \<open>left = -right\<close>,
  \<open>top = (1/aspectRatio) * right\<close> with the quotient and the product each rounded to a
  double, \<open>bottom = -top\<close>, and near and far as they are in the frustum.
\<close>

theorem update_derives:
  assumes "changed fr" and "update fr = Inr fr'"
  shows "f_right (offCenter fr') = Num (js_div (to_number (width fr)) (Fin 2)) \<and>
         f_left (offCenter fr') = Num (js_neg (to_number (f_right (offCenter fr')))) \<and>
         f_top (offCenter fr') =
           Num (js_mul (js_div (Fin 1) (to_number (aspectRatio fr)))
                  (to_number (f_right (offCenter fr')))) \<and>
         f_bottom (offCenter fr') = Num (js_neg (to_number (f_top (offCenter fr')))) \<and>
         f_near (offCenter fr') = near fr \<and> f_far (offCenter fr') = far fr"
  using assms
  by (auto simp: update_def Let_def js_half split: if_splits)

theorem update_derives_witness:
  "changed (example_frustum (Num (Fin 10)) (Num (Fin 3)) (Num (Fin 1)) (Num (Fin 10))) \<and>
   update (example_frustum (Num (Fin 10)) (Num (Fin 3)) (Num (Fin 1)) (Num (Fin 10))) =
     Inr updated_thirds \<and>
   f_right (offCenter updated_thirds) = Num (Fin 5) \<and>
   f_left (offCenter updated_thirds) = Num (Fin (- 5)) \<and>
   f_top (offCenter updated_thirds) = Num (js_mul (js_div (Fin 1) (Fin 3)) (Fin 5)) \<and>
   f_top (offCenter updated_thirds) = Num (Fin (3752999689475413 / 2251799813685248)) \<and>
   f_bottom (offCenter updated_thirds) = Num (Fin (- (3752999689475413 / 2251799813685248))) \<and>
   f_near (offCenter updated_thirds) = Num (Fin 1) \<and>
   f_far (offCenter updated_thirds) = Num (Fin 10)"
proof -
  note t = update_derives [OF changed_thirds update_thirds]
  have f: "f_right (offCenter updated_thirds) = Num (Fin 5)"
    "aspectRatio (example_frustum (Num (Fin 10)) (Num (Fin 3)) (Num (Fin 1)) (Num (Fin 10))) =
       Num (Fin 3)"
    by (simp_all add: updated_thirds_def example_frustum_def OrthographicFrustum_new_def Let_def)
  from t have "f_top (offCenter updated_thirds) = Num (js_mul (js_div (Fin 1) (Fin 3)) (Fin 5))"
    by (simp add: f)
  with changed_thirds update_thirds show ?thesis
    by (simp add: updated_thirds_def)
qed

lemma update_Inr_defined:
  assumes "update fr = Inr fr'"
  shows "defined (width fr) \<and> defined (aspectRatio fr) \<and> defined (near fr) \<and> defined (far fr)"
proof (rule ccontr)
  assume "\<not> ?thesis"
  then have "update fr = Inl (DeveloperError ''width, aspectRatio, near, or far parameters are not set.'')"
    by (simp add: update_def)
  with assms show False by simp
qed

lemma update_unchanged: "\<not> changed fr \<Longrightarrow> update fr = Inr fr' \<Longrightarrow> fr' = fr"
  by (simp add: update_def Let_def split: if_splits)

lemma update_changed:
  assumes "changed fr" and "update fr = Inr fr'"
  shows "\<not> val_lt (aspectRatio fr) (Num (Fin 0))"
    and "\<not> (val_lt (near fr) (Num (Fin 0)) \<or> val_gt (near fr) (far fr))"
    and "fr' = fr\<lparr>cached_aspectRatio := aspectRatio fr, cached_width := width fr,
                  cached_near := near fr, cached_far := far fr,
                  offCenter := (offCenter fr)
                    \<lparr>f_right := Num (js_mul (to_number (width fr)) (Fin (1 / 2))),
                     f_left := Num (js_neg (js_mul (to_number (width fr)) (Fin (1 / 2)))),
                     f_top := Num (js_mul (js_div (Fin 1) (to_number (aspectRatio fr)))
                                (js_mul (to_number (width fr)) (Fin (1 / 2)))),
                     f_bottom := Num (js_neg (js_mul (js_div (Fin 1) (to_number (aspectRatio fr)))
                                (js_mul (to_number (width fr)) (Fin (1 / 2))))),
                     f_near := near fr, f_far := far fr\<rparr>\<rparr>"
proof -
  note d = update_Inr_defined [OF assms(2)]
  show a: "\<not> val_lt (aspectRatio fr) (Num (Fin 0))"
  proof
    assume "val_lt (aspectRatio fr) (Num (Fin 0))"
    with d assms(1) have "update fr = Inl (DeveloperError ''aspectRatio must be positive.'')"
      by (simp add: update_def Let_def)
    with assms(2) show False by simp
  qed
  show b: "\<not> (val_lt (near fr) (Num (Fin 0)) \<or> val_gt (near fr) (far fr))"
  proof
    assume "val_lt (near fr) (Num (Fin 0)) \<or> val_gt (near fr) (far fr)"
    with d assms(1) a
    have "update fr = Inl (DeveloperError ''near must be greater than zero and less than far.'')"
      by (simp add: update_def Let_def)
    with assms(2) show False by simp
  qed
  from d assms a b show "fr' = fr\<lparr>cached_aspectRatio := aspectRatio fr, cached_width := width fr,
                  cached_near := near fr, cached_far := far fr,
                  offCenter := (offCenter fr)
                    \<lparr>f_right := Num (js_mul (to_number (width fr)) (Fin (1 / 2))),
                     f_left := Num (js_neg (js_mul (to_number (width fr)) (Fin (1 / 2)))),
                     f_top := Num (js_mul (js_div (Fin 1) (to_number (aspectRatio fr)))
                                (js_mul (to_number (width fr)) (Fin (1 / 2)))),
                     f_bottom := Num (js_neg (js_mul (js_div (Fin 1) (to_number (aspectRatio fr)))
                                (js_mul (to_number (width fr)) (Fin (1 / 2))))),
                     f_near := near fr, f_far := far fr\<rparr>\<rparr>"
    by (simp add: update_def Let_def)
qed

lemma update_idem:
  assumes "update fr = Inr fr'"
  shows "update fr' = Inr fr'"
proof (cases "changed fr")
  case False
  with assms update_unchanged show ?thesis by blast
next
  case True
  note d = update_Inr_defined [OF assms]
  note c = update_changed [OF True assms]
  from c(3) have f: "width fr' = width fr" "aspectRatio fr' = aspectRatio fr"
    "near fr' = near fr" "far fr' = far fr" by simp_all
  show ?thesis
  proof (cases "changed fr'")
    case False
    with d f show ?thesis by (simp add: update_def)
  next
    case True
    with d f c(1,2) have "update fr' = Inr (fr'\<lparr>cached_aspectRatio := aspectRatio fr', cached_width := width fr',
                  cached_near := near fr', cached_far := far fr',
                  offCenter := (offCenter fr')
                    \<lparr>f_right := Num (js_mul (to_number (width fr')) (Fin (1 / 2))),
                     f_left := Num (js_neg (js_mul (to_number (width fr')) (Fin (1 / 2)))),
                     f_top := Num (js_mul (js_div (Fin 1) (to_number (aspectRatio fr')))
                                (js_mul (to_number (width fr')) (Fin (1 / 2)))),
                     f_bottom := Num (js_neg (js_mul (js_div (Fin 1) (to_number (aspectRatio fr')))
                                (js_mul (to_number (width fr')) (Fin (1 / 2))))),
                     f_near := near fr', f_far := far fr'\<rparr>\<rparr>)"
      by (simp add: update_def Let_def)
    also have "\<dots> = Inr fr'"
      by (simp add: c(3))
    finally show ?thesis .
  qed
qed

text \<open>
  Claim C7. Recomputation is lazy: when no parameter differs from its cached value,
  \<open>update\<close> writes nothing (it returns the frustum as it is, or throws for an unset
  parameter before any write). Moreover \<open>update\<close> is idempotent: after a successful
  \<open>update\<close>, a second one succeeds and leaves the frustum as the first one left it.
\<close>

theorem update_lazy_idempotent:
  "(\<not> changed fr1 \<longrightarrow>
      update fr1 = Inr fr1 \<or>
      update fr1 = Inl (DeveloperError ''width, aspectRatio, near, or far parameters are not set.'')) \<and>
   (update fr2 = Inr fr2' \<longrightarrow> update fr2' = Inr fr2')"
  using update_idem by (auto simp: update_def Let_def)

theorem update_lazy_idempotent_witness:
  "\<not> changed updated_example \<and> update updated_example = Inr updated_example \<and>
   update (example_frustum (Num (Fin 2)) (Num (Fin 2)) (Num (Fin 1)) (Num (Fin 10))) = Inr updated_example"
  using update_lazy_idempotent [of updated_example
      "example_frustum (Num (Fin 2)) (Num (Fin 2)) (Num (Fin 1)) (Num (Fin 10))" updated_example]
  by (simp add: frustum_eval updated_example_def)

text \<open>
  Claim C8. The pixel dimensions do not depend on the distance argument: for any two
  distances \<open>getPixelDimensions\<close> gives the same result, and when \<open>update\<close> succeeds the
  result is \<open>(right-left)/bufferWidth\<close> and \<open>(top-bottom)/bufferHeight\<close> of the updated
  helper.
\<close>

theorem getPixelDimensions_distance_independent:
  "getPixelDimensions fr w h d1 result = getPixelDimensions fr w h d2 result \<and>
   (update fr = Inr fr' \<longrightarrow>
      getPixelDimensions fr w h d1 result =
        Inr (Cartesian2
          (Num (js_div (js_sub (to_number (f_right (offCenter fr'))) (to_number (f_left (offCenter fr'))))
                  (to_number w)))
          (Num (js_div (js_sub (to_number (f_top (offCenter fr'))) (to_number (f_bottom (offCenter fr'))))
                  (to_number h)))))"
  by (simp add: getPixelDimensions_def OrthographicOffCenterFrustum_getPixelDimensions_def Let_def
      split: sum.splits)

theorem getPixelDimensions_distance_independent_witness:
  "update (example_frustum (Num (Fin 2)) (Num (Fin 2)) (Num (Fin 1)) (Num (Fin 10))) = Inr updated_example \<and>
   getPixelDimensions (example_frustum (Num (Fin 2)) (Num (Fin 2)) (Num (Fin 1)) (Num (Fin 10)))
     (Num (Fin 800)) (Num (Fin 600)) (Num (Fin 0)) (Cartesian2 Undefined Undefined) =
   getPixelDimensions (example_frustum (Num (Fin 2)) (Num (Fin 2)) (Num (Fin 1)) (Num (Fin 10)))
     (Num (Fin 800)) (Num (Fin 600)) (Num (Fin 1000)) (Cartesian2 Undefined Undefined) \<and>
   getPixelDimensions (example_frustum (Num (Fin 2)) (Num (Fin 2)) (Num (Fin 1)) (Num (Fin 10)))
     (Num (Fin 800)) (Num (Fin 600)) (Num (Fin 0)) (Cartesian2 Undefined Undefined) =
   Inr (Cartesian2 (Num (Fin (5764607523034235 / 2 ^ 61))) (Num (Fin (7686143364045647 / 2 ^ 62))))"
proof -
  note t = getPixelDimensions_distance_independent
    [of "example_frustum (Num (Fin 2)) (Num (Fin 2)) (Num (Fin 1)) (Num (Fin 10))"
        "Num (Fin 800)" "Num (Fin 600)" "Num (Fin 0)" "Cartesian2 Undefined Undefined"
        "Num (Fin 1000)" updated_example]
  from t have e: "getPixelDimensions (example_frustum (Num (Fin 2)) (Num (Fin 2)) (Num (Fin 1)) (Num (Fin 10)))
     (Num (Fin 800)) (Num (Fin 600)) (Num (Fin 0)) (Cartesian2 Undefined Undefined) =
   getPixelDimensions (example_frustum (Num (Fin 2)) (Num (Fin 2)) (Num (Fin 1)) (Num (Fin 10)))
     (Num (Fin 800)) (Num (Fin 600)) (Num (Fin 1000)) (Cartesian2 Undefined Undefined)"
    by (rule conjunct1)
  from t [THEN conjunct2] update_example have r: "getPixelDimensions (example_frustum (Num (Fin 2)) (Num (Fin 2)) (Num (Fin 1)) (Num (Fin 10)))
     (Num (Fin 800)) (Num (Fin 600)) (Num (Fin 0)) (Cartesian2 Undefined Undefined) =
     Inr (Cartesian2 (Num (Fin (5764607523034235 / 2 ^ 61))) (Num (Fin (7686143364045647 / 2 ^ 62))))"
    by (simp add: updated_example_def js_sub_def js_div_def round64_eval)
  from e r have "getPixelDimensions (example_frustum (Num (Fin 2)) (Num (Fin 2)) (Num (Fin 1)) (Num (Fin 10)))
     (Num (Fin 800)) (Num (Fin 600)) (Num (Fin 1000)) (Cartesian2 Undefined Undefined) =
     Inr (Cartesian2 (Num (Fin (5764607523034235 / 2 ^ 61))) (Num (Fin (7686143364045647 / 2 ^ 62))))"
    by simp
  with r update_example show ?thesis by simp
qed

text \<open>
  Claim C9. Unpacking, from the same index, the array that \<open>OrthographicFrustum.pack\<close> wrote
  gives a frustum with the width, aspect ratio, near and far of the packed one, whatever
  these values are; the packed layout is width, aspectRatio, near, far, and the packed
  length is 4.
\<close>

theorem frustum_pack_unpack_roundtrip:
  "width (OrthographicFrustum_unpack f0 (OrthographicFrustum_pack v array i) i result) = width v \<and>
   aspectRatio (OrthographicFrustum_unpack f0 (OrthographicFrustum_pack v array i) i result) = aspectRatio v \<and>
   near (OrthographicFrustum_unpack f0 (OrthographicFrustum_pack v array i) i result) = near v \<and>
   far (OrthographicFrustum_unpack f0 (OrthographicFrustum_pack v array i) i result) = far v \<and>
   OrthographicFrustum_pack v [] None = [width v, aspectRatio v, near v, far v] \<and>
   length (OrthographicFrustum_pack v [] None) = OrthographicFrustum_packedLength \<and>
   OrthographicFrustum_packedLength = 4"
proof -
  have "OrthographicFrustum_pack v [] None = [width v, aspectRatio v, near v, far v]"
    by (simp add: OrthographicFrustum_pack_def array_set_def)
  then show ?thesis
    by (simp add: OrthographicFrustum_unpack_def OrthographicFrustum_pack_def Let_def array_get_set
        OrthographicFrustum_packedLength_def)
qed

theorem frustum_pack_unpack_roundtrip_witness:
  "width (OrthographicFrustum_unpack example_offCenter
      (OrthographicFrustum_pack (example_frustum Undefined (Num (Fin 0)) (Num (Fin 7)) (Num (Fin 3)))
         [] (Some 2)) (Some 2) None) = Undefined \<and>
   aspectRatio (OrthographicFrustum_unpack example_offCenter
      (OrthographicFrustum_pack (example_frustum Undefined (Num (Fin 0)) (Num (Fin 7)) (Num (Fin 3)))
         [] (Some 2)) (Some 2) None) = Num (Fin 0) \<and>
   near (OrthographicFrustum_unpack example_offCenter
      (OrthographicFrustum_pack (example_frustum Undefined (Num (Fin 0)) (Num (Fin 7)) (Num (Fin 3)))
         [] (Some 2)) (Some 2) None) = Num (Fin 7) \<and>
   far (OrthographicFrustum_unpack example_offCenter
      (OrthographicFrustum_pack (example_frustum Undefined (Num (Fin 0)) (Num (Fin 7)) (Num (Fin 3)))
         [] (Some 2)) (Some 2) None) = Num (Fin 3)"
proof -
  have f: "width (example_frustum Undefined (Num (Fin 0)) (Num (Fin 7)) (Num (Fin 3))) = Undefined"
    "aspectRatio (example_frustum Undefined (Num (Fin 0)) (Num (Fin 7)) (Num (Fin 3))) = Num (Fin 0)"
    "near (example_frustum Undefined (Num (Fin 0)) (Num (Fin 7)) (Num (Fin 3))) = Num (Fin 7)"
    "far (example_frustum Undefined (Num (Fin 0)) (Num (Fin 7)) (Num (Fin 3))) = Num (Fin 3)"
    by (simp_all add: example_frustum_def OrthographicFrustum_new_def Let_def)
  note t = frustum_pack_unpack_roundtrip
    [of example_offCenter "example_frustum Undefined (Num (Fin 0)) (Num (Fin 7)) (Num (Fin 3))"
        "[]" "Some 2" None]
  from t show ?thesis unfolding f by (elim conjE) (intro conjI)
qed

lemma update_Undefined:
  "width g = Undefined \<or> aspectRatio g = Undefined \<Longrightarrow>
   update g = Inl (DeveloperError ''width, aspectRatio, near, or far parameters are not set.'')"
  by (auto simp: update_def)

lemma update_error: "update fr = Inl e \<Longrightarrow> \<exists>msg. e = DeveloperError msg"
  by (auto simp: update_def Let_def split: if_splits)

lemma equals_OtherFrustum:
  "equals oc_equals fr (OtherFrustum g) =
     (case update fr of
        Inl e \<Rightarrow> Inl e
      | Inr fr' \<Rightarrow>
          (case update g of
             Inl e \<Rightarrow> Inl e
           | Inr g' \<Rightarrow>
               if strict_eq (width fr') (width g') \<and> strict_eq (aspectRatio fr') (aspectRatio g')
               then oc_equals (offCenter fr') (offCenter g')
               else Inr False))"
  by (simp add: equals_def)

lemma equalsEpsilon_OtherFrustum:
  "equalsEpsilon math_eps oc_eps fr (OtherFrustum g) rel_eps abs_eps =
     (case update fr of
        Inl e \<Rightarrow> Inl e
      | Inr fr' \<Rightarrow>
          (case update g of
             Inl e \<Rightarrow> Inl e
           | Inr g' \<Rightarrow>
               if math_eps (width fr') (width g') rel_eps abs_eps \<and>
                  math_eps (aspectRatio fr') (aspectRatio g') rel_eps abs_eps
               then oc_eps (offCenter fr') (offCenter g') rel_eps abs_eps
               else Inr False))"
  by (simp add: equalsEpsilon_def)

text \<open>
  Claim C10. \<open>equals\<close> and \<open>equalsEpsilon\<close> return false, without updating, for an
  argument that is undefined or not a frustum, whatever the receiver. For a frustum
  argument they update both operands before comparing: an error of the receiver's
  \<open>update\<close> is thrown; otherwise an error of the argument's \<open>update\<close> is thrown; otherwise
  the widths and aspect ratios are compared and then the off-center helpers as the two
  updates left them. So an argument whose width or aspect ratio is unset makes them throw a
  DeveloperError instead of returning a boolean (the error of the unset parameters when the
  receiver itself updates without error).
\<close>

theorem equals_updates_both_operands:
  "equals oc_equals fr OtherUndefined = Inr False \<and>
   equals oc_equals fr OtherNotFrustum = Inr False \<and>
   equalsEpsilon math_eps oc_eps fr OtherUndefined rel_eps abs_eps = Inr False \<and>
   equalsEpsilon math_eps oc_eps fr OtherNotFrustum rel_eps abs_eps = Inr False \<and>
   (update fr = Inl err_this \<longrightarrow>
      equals oc_equals fr (OtherFrustum g) = Inl err_this \<and>
      equalsEpsilon math_eps oc_eps fr (OtherFrustum g) rel_eps abs_eps = Inl err_this) \<and>
   (update fr = Inr fr' \<longrightarrow> update g = Inl err_other \<longrightarrow>
      equals oc_equals fr (OtherFrustum g) = Inl err_other \<and>
      equalsEpsilon math_eps oc_eps fr (OtherFrustum g) rel_eps abs_eps = Inl err_other) \<and>
   (update fr = Inr fr' \<longrightarrow> update g = Inr g' \<longrightarrow>
      equals oc_equals fr (OtherFrustum g) =
        (if strict_eq (width fr') (width g') \<and> strict_eq (aspectRatio fr') (aspectRatio g')
         then oc_equals (offCenter fr') (offCenter g') else Inr False) \<and>
      equalsEpsilon math_eps oc_eps fr (OtherFrustum g) rel_eps abs_eps =
        (if math_eps (width fr') (width g') rel_eps abs_eps \<and>
            math_eps (aspectRatio fr') (aspectRatio g') rel_eps abs_eps
         then oc_eps (offCenter fr') (offCenter g') rel_eps abs_eps else Inr False)) \<and>
   (width g = Undefined \<or> aspectRatio g = Undefined \<longrightarrow>
      (\<exists>msg. equals oc_equals fr (OtherFrustum g) = Inl (DeveloperError msg)) \<and>
      (\<exists>msg. equalsEpsilon math_eps oc_eps fr (OtherFrustum g) rel_eps abs_eps =
         Inl (DeveloperError msg)) \<and>
      ((\<exists>fr'. update fr = Inr fr') \<longrightarrow>
         equals oc_equals fr (OtherFrustum g) =
           Inl (DeveloperError ''width, aspectRatio, near, or far parameters are not set.'') \<and>
         equalsEpsilon math_eps oc_eps fr (OtherFrustum g) rel_eps abs_eps =
           Inl (DeveloperError ''width, aspectRatio, near, or far parameters are not set.'')))"
proof -
  have a: "equals oc_equals fr OtherUndefined = Inr False"
    "equals oc_equals fr OtherNotFrustum = Inr False"
    by (simp_all add: equals_def)
  have b: "equalsEpsilon math_eps oc_eps fr OtherUndefined rel_eps abs_eps = Inr False"
    "equalsEpsilon math_eps oc_eps fr OtherNotFrustum rel_eps abs_eps = Inr False"
    by (simp_all add: equalsEpsilon_def)
  have c: "equals oc_equals fr (OtherFrustum g) = Inl err_this"
    "equalsEpsilon math_eps oc_eps fr (OtherFrustum g) rel_eps abs_eps = Inl err_this"
    if "update fr = Inl err_this"
    using that by (simp_all add: equals_OtherFrustum equalsEpsilon_OtherFrustum)
  have d: "equals oc_equals fr (OtherFrustum g) = Inl err_other"
    "equalsEpsilon math_eps oc_eps fr (OtherFrustum g) rel_eps abs_eps = Inl err_other"
    if "update fr = Inr fr'" "update g = Inl err_other"
    using that by (simp_all add: equals_OtherFrustum equalsEpsilon_OtherFrustum)
  have e: "equals oc_equals fr (OtherFrustum g) =
        (if strict_eq (width fr') (width g') \<and> strict_eq (aspectRatio fr') (aspectRatio g')
         then oc_equals (offCenter fr') (offCenter g') else Inr False)"
    "equalsEpsilon math_eps oc_eps fr (OtherFrustum g) rel_eps abs_eps =
        (if math_eps (width fr') (width g') rel_eps abs_eps \<and>
            math_eps (aspectRatio fr') (aspectRatio g') rel_eps abs_eps
         then oc_eps (offCenter fr') (offCenter g') rel_eps abs_eps else Inr False)"
    if "update fr = Inr fr'" "update g = Inr g'"
    using that by (simp_all add: equals_OtherFrustum equalsEpsilon_OtherFrustum)
  have f: "\<exists>msg. equals oc_equals fr (OtherFrustum g) = Inl (DeveloperError msg)"
    "\<exists>msg. equalsEpsilon math_eps oc_eps fr (OtherFrustum g) rel_eps abs_eps =
       Inl (DeveloperError msg)"
    if "width g = Undefined \<or> aspectRatio g = Undefined"
    using update_Undefined [OF that] update_error [of fr]
    by (auto simp: equals_OtherFrustum equalsEpsilon_OtherFrustum split: sum.splits)
  have g: "equals oc_equals fr (OtherFrustum g) =
           Inl (DeveloperError ''width, aspectRatio, near, or far parameters are not set.'')"
    "equalsEpsilon math_eps oc_eps fr (OtherFrustum g) rel_eps abs_eps =
           Inl (DeveloperError ''width, aspectRatio, near, or far parameters are not set.'')"
    if "width g = Undefined \<or> aspectRatio g = Undefined" "\<exists>fr'. update fr = Inr fr'"
    using update_Undefined [OF that(1)] that(2)
    by (auto simp: equals_OtherFrustum equalsEpsilon_OtherFrustum)
  show ?thesis using a b c d e f g by blast
qed

lemma update_stale:
  "update (stale_frustum (Num (Fin 2)) (Num (Fin 2)) (Num (Fin 1)) (Num (Fin 10))) = Inr updated_example"
  by (simp add: frustum_eval stale_frustum_def updated_example_def)

lemma update_negative_aspectRatio:
  "update (example_frustum (Num (Fin 2)) (Num (Fin (- 1))) (Num (Fin 1)) (Num (Fin 10))) =
     Inl (DeveloperError ''aspectRatio must be positive.'')"
  by (simp add: frustum_eval)

theorem equals_updates_both_operands_witness:
  "width (example_frustum Undefined (Num (Fin 2)) (Num (Fin 1)) (Num (Fin 10))) = Undefined \<and>
   update (example_frustum (Num (Fin 2)) (Num (Fin 2)) (Num (Fin 1)) (Num (Fin 10))) = Inr updated_example \<and>
   update (stale_frustum (Num (Fin 2)) (Num (Fin 2)) (Num (Fin 1)) (Num (Fin 10))) = Inr updated_example \<and>
   offCenter (example_frustum (Num (Fin 2)) (Num (Fin 2)) (Num (Fin 1)) (Num (Fin 10))) \<noteq>
     offCenter (stale_frustum (Num (Fin 2)) (Num (Fin 2)) (Num (Fin 1)) (Num (Fin 10))) \<and>
   equals (\<lambda>a b. Inr (a = b)) (example_frustum (Num (Fin 2)) (Num (Fin 2)) (Num (Fin 1)) (Num (Fin 10)))
     (OtherFrustum (stale_frustum (Num (Fin 2)) (Num (Fin 2)) (Num (Fin 1)) (Num (Fin 10)))) =
   Inr True \<and>
   equals (\<lambda>a b. Inr (a = b)) (example_frustum (Num (Fin 2)) (Num (Fin 2)) (Num (Fin 1)) (Num (Fin 10)))
     (OtherFrustum (example_frustum Undefined (Num (Fin 2)) (Num (Fin 1)) (Num (Fin 10)))) =
   Inl (DeveloperError ''width, aspectRatio, near, or far parameters are not set.'') \<and>
   equals (\<lambda>a b. Inr (a = b)) (example_frustum (Num (Fin 2)) (Num (Fin (- 1))) (Num (Fin 1)) (Num (Fin 10)))
     (OtherFrustum (example_frustum (Num (Fin 2)) (Num (Fin 2)) (Num (Fin 1)) (Num (Fin 10)))) =
   Inl (DeveloperError ''aspectRatio must be positive.'') \<and>
   equals (\<lambda>a b. Inr (a = b)) (example_frustum (Num (Fin 2)) (Num (Fin (- 1))) (Num (Fin 1)) (Num (Fin 10)))
     OtherUndefined = Inr False"
proof -
  let ?A = "example_frustum (Num (Fin 2)) (Num (Fin 2)) (Num (Fin 1)) (Num (Fin 10))"
  let ?S = "stale_frustum (Num (Fin 2)) (Num (Fin 2)) (Num (Fin 1)) (Num (Fin 10))"
  let ?U = "example_frustum Undefined (Num (Fin 2)) (Num (Fin 1)) (Num (Fin 10))"
  let ?B = "example_frustum (Num (Fin 2)) (Num (Fin (- 1))) (Num (Fin 1)) (Num (Fin 10))"
  let ?eq = "\<lambda>a b :: offCenterFrustum. (Inr (a = b) :: error + bool)"
  let ?me = "\<lambda>(a::jsval) (b::jsval) (r::jsval) (e::jsval). a = b"
  let ?oe = "\<lambda>(a::offCenterFrustum) (b::offCenterFrustum) (r::jsval) (e::jsval). (Inr (a = b) :: error + bool)"
  have w: "width ?U = Undefined"
    by (simp add: example_frustum_def OrthographicFrustum_new_def Let_def)
  have ne: "offCenter ?A \<noteq> offCenter ?S"
    by (simp add: example_frustum_def stale_frustum_def example_offCenter_def
        OrthographicFrustum_new_def Let_def)
  have se: "strict_eq (width updated_example) (width updated_example)"
    "strict_eq (aspectRatio updated_example) (aspectRatio updated_example)"
    by (simp_all add: updated_example_def js_eq_def)
  note t1 = equals_updates_both_operands
    [where oc_equals = ?eq and fr = ?A and g = ?S and fr' = updated_example and g' = updated_example
       and math_eps = ?me and oc_eps = ?oe and rel_eps = Undefined and abs_eps = Undefined]
  from t1 update_example update_stale se have 1: "equals ?eq ?A (OtherFrustum ?S) = Inr True"
    by simp
  note t2 = equals_updates_both_operands
    [where oc_equals = ?eq and fr = ?A and g = ?U
       and math_eps = ?me and oc_eps = ?oe and rel_eps = Undefined and abs_eps = Undefined]
  from t2 w update_example
  have 2: "equals ?eq ?A (OtherFrustum ?U) =
      Inl (DeveloperError ''width, aspectRatio, near, or far parameters are not set.'')"
    by blast
  note t3 = equals_updates_both_operands
    [where oc_equals = ?eq and fr = ?B and g = ?A and err_this = "DeveloperError ''aspectRatio must be positive.''"
       and math_eps = ?me and oc_eps = ?oe and rel_eps = Undefined and abs_eps = Undefined]
  from t3 update_negative_aspectRatio
  have 3: "equals ?eq ?B (OtherFrustum ?A) = Inl (DeveloperError ''aspectRatio must be positive.'')"
    by blast
  from t3 have 4: "equals ?eq ?B OtherUndefined = Inr False"
    by blast
  from w update_example update_stale ne 1 2 3 4 show ?thesis by (intro conjI)
qed

section \<open>Properties of the outline geometry\<close>

lemma take_update3:
  "k + 3 \<le> length xs \<Longrightarrow>
   take (k + 3) (xs[k := a, k + 1 := b, k + 2 := c]) = take k xs @ [a, b, c]"
  by (simp add: numeral_3_eq_3 take_Suc_conv_app_nth nth_list_update)

lemma take_update2:
  "k + 2 \<le> length xs \<Longrightarrow> take (k + 2) (xs[k := a, k + 1 := b]) = take k xs @ [a, b]"
  by (simp add: numeral_2_eq_2 take_Suc_conv_app_nth nth_list_update)

text \<open>
  The invariant of the loop: after \<open>i\<close> rounds the first \<open>3 * i\<close> coordinates and the first
  \<open>2 * i\<close> indices are written.
\<close>

lemma loop_spec:
  assumes "i \<le> length ps" and "length fp = 3 * length ps" and "length ix = 2 * length ps"
    and "take (3 * i) fp = concat (map (\<lambda>p. [c3_x p, c3_y p, c3_z p]) (take i ps))"
    and "take (2 * i) ix = concat (map (\<lambda>j. [j, (j + 1) mod length ps]) [0..<i])"
  shows "createGeometryFromPositions_loop ps i fp ix (3 * i) (2 * i) =
           (concat (map (\<lambda>p. [c3_x p, c3_y p, c3_z p]) ps),
            concat (map (\<lambda>j. [j, (j + 1) mod length ps]) [0..<length ps]))"
  using assms
proof (induction "length ps - i" arbitrary: i fp ix)
  case 0
  then have "i = length ps" by simp
  with "0.prems" show ?case
    by (subst createGeometryFromPositions_loop.simps) simp
next
  case (Suc n)
  then have i: "i < length ps" by simp
  let ?p = "ps ! i"
  let ?fp = "fp[3 * i := c3_x ?p, 3 * i + 1 := c3_y ?p, 3 * i + 2 := c3_z ?p]"
  let ?ix = "ix[2 * i := i, 2 * i + 1 := (i + 1) mod length ps]"
  have step: "createGeometryFromPositions_loop ps i fp ix (3 * i) (2 * i) =
      createGeometryFromPositions_loop ps (i + 1) ?fp ?ix (3 * i + 3) (2 * i + 2)"
    using i by (subst createGeometryFromPositions_loop.simps) (simp only: Let_def if_True)
  have e: "3 * i + 3 = 3 * (i + 1)" "2 * i + 2 = 2 * (i + 1)" by simp_all
  have "take (3 * i + 3) ?fp = take (3 * i) fp @ [c3_x ?p, c3_y ?p, c3_z ?p]"
    using i Suc.prems(2) by (intro take_update3) simp
  then have t3: "take (3 * (i + 1)) ?fp = take (3 * i) fp @ [c3_x ?p, c3_y ?p, c3_z ?p]"
    by (simp only: e)
  have tk: "take (i + 1) ps = take i ps @ [ps ! i]"
    using i by (simp add: take_Suc_conv_app_nth)
  have fp: "take (3 * (i + 1)) ?fp =
      concat (map (\<lambda>p. [c3_x p, c3_y p, c3_z p]) (take (i + 1) ps))"
    unfolding t3 tk Suc.prems(4) by simp
  have "take (2 * i + 2) ?ix = take (2 * i) ix @ [i, (i + 1) mod length ps]"
    using i Suc.prems(3) by (intro take_update2) simp
  then have t2: "take (2 * (i + 1)) ?ix = take (2 * i) ix @ [i, (i + 1) mod length ps]"
    by (simp only: e)
  have ix: "take (2 * (i + 1)) ?ix =
      concat (map (\<lambda>j. [j, (j + 1) mod length ps]) [0..<i + 1])"
    unfolding t2 Suc.prems(5) by simp
  have "createGeometryFromPositions_loop ps (i + 1) ?fp ?ix (3 * (i + 1)) (2 * (i + 1)) =
           (concat (map (\<lambda>p. [c3_x p, c3_y p, c3_z p]) ps),
            concat (map (\<lambda>j. [j, (j + 1) mod length ps]) [0..<length ps]))"
    using Suc.hyps(2) i Suc.prems(2,3) fp ix by (intro Suc.hyps(1)) simp_all
  with step show ?case by (simp only: e)
qed

lemma createGeometryFromPositions_closed:
  "createGeometryFromPositions ps =
     \<lparr>geom_attributes = [(''position'',
         \<lparr>componentDatatype = DOUBLE, componentsPerAttribute = 3,
          attribute_values = concat (map (\<lambda>p. [c3_x p, c3_y p, c3_z p]) ps)\<rparr>)],
      geom_indices = concat (map (\<lambda>j. [j, (j + 1) mod length ps]) [0..<length ps]),
      geom_primitiveType = LINES, geom_boundingSphere = None\<rparr>"
  using loop_spec [of 0 ps "replicate (length ps * 3) (Fin 0)" "replicate (length ps * 2) 0"]
  by (simp add: createGeometryFromPositions_def Let_def)

lemma length_concat_fixed:
  "(\<And>x. x \<in> set xs \<Longrightarrow> length (f x) = k) \<Longrightarrow> length (concat (map f xs)) = k * length xs"
  by (induction xs) auto

lemma replicate_8: "replicate 8 (0::nat) = [0, 0, 0, 0, 0, 0, 0, 0]"
  by (simp add: numeral_eq_Suc)

text \<open>
  Claim C3. The outline of a ring of \<open>N\<close> positions has the \<open>3 * N\<close> coordinates of the ring
  in order as its position buffer, the \<open>2 * N\<close> indices \<open>i, (i + 1) mod N\<close> for
  \<open>i = 0, ..., N - 1\<close> as its index buffer, and the topology LINES; a ring of three
  positions gives the indices 0,1,1,2,2,0, and the plane outline has the indices
  0,1,1,2,2,3,3,0 and the topology LINES.
\<close>

theorem outline_from_ring:
  "geom_attributes (createGeometryFromPositions ps) =
     [(''position'', \<lparr>componentDatatype = DOUBLE, componentsPerAttribute = 3,
         attribute_values = concat (map (\<lambda>p. [c3_x p, c3_y p, c3_z p]) ps)\<rparr>)] \<and>
   length (concat (map (\<lambda>p. [c3_x p, c3_y p, c3_z p]) ps)) = 3 * length ps \<and>
   geom_indices (createGeometryFromPositions ps) =
     concat (map (\<lambda>i. [i, (i + 1) mod length ps]) [0..<length ps]) \<and>
   length (geom_indices (createGeometryFromPositions ps)) = 2 * length ps \<and>
   geom_primitiveType (createGeometryFromPositions ps) = LINES \<and>
   geom_indices (createGeometryFromPositions [p0, p1, p2]) = [0, 1, 1, 2, 2, 0] \<and>
   geom_indices PlaneOutlineGeometry_createGeometry = [0, 1, 1, 2, 2, 3, 3, 0] \<and>
   geom_primitiveType PlaneOutlineGeometry_createGeometry = LINES"
proof -
  have 1: "length (concat (map (\<lambda>p. [c3_x p, c3_y p, c3_z p]) ps)) = 3 * length ps"
    by (rule length_concat_fixed) simp
  have 2: "length (concat (map (\<lambda>i. [i, (i + 1) mod length ps]) [0..<length ps])) = 2 * length ps"
    using length_concat_fixed [of "[0..<length ps]" "\<lambda>i. [i, (i + 1) mod length ps]" 2] by simp
  have "[0..<length [p0, p1, p2]] = [0, 1, 2]"
    by (simp add: upt_rec)
  then have 3: "geom_indices (createGeometryFromPositions [p0, p1, p2]) = [0, 1, 1, 2, 2, 0]"
    by (simp add: createGeometryFromPositions_closed)
  have 4: "geom_indices PlaneOutlineGeometry_createGeometry = [0, 1, 1, 2, 2, 3, 3, 0]"
    "geom_primitiveType PlaneOutlineGeometry_createGeometry = LINES"
    by (simp_all add: PlaneOutlineGeometry_createGeometry_def Let_def replicate_8)
  show ?thesis using 1 2 3 4 by (simp add: createGeometryFromPositions_closed)
qed

theorem outline_from_ring_witness:
  "geom_indices (createGeometryFromPositions example_ring) = [0, 1, 1, 2, 2, 0] \<and>
   length (geom_indices (createGeometryFromPositions example_ring)) = 6 \<and>
   geom_primitiveType (createGeometryFromPositions example_ring) = LINES"
  using outline_from_ring
    [of example_ring "Cartesian3 (Fin 0) (Fin 0) (Fin 0)" "Cartesian3 (Fin 1) (Fin 0) (Fin 0)"
        "Cartesian3 (Fin 1) (Fin 1) (Fin 0)"]
  by (simp add: example_ring_def)

text \<open>
  Claim C4. When the outer ring has fewer than three positions after the removal of
  duplicates, or the ring without duplicates is not a valid outline, \<open>createGeometry\<close>
  returns \<open>undefined\<close> and does not throw.
\<close>

theorem createGeometry_degenerate:
  assumes "length (arrayRemoveDuplicates (h_positions (outline_polygonHierarchy g))) < 3 \<or>
           \<not> validOutline (arrayRemoveDuplicates (h_positions (outline_polygonHierarchy g)))"
  shows "CoplanarPolygonOutlineGeometry_createGeometry arrayRemoveDuplicates validOutline
           polygonOutlinesFromHierarchy combineInstances fromPoints g = Inr None"
  using assms by (auto simp: CoplanarPolygonOutlineGeometry_createGeometry_def Let_def)

theorem createGeometry_degenerate_witness:
  "length (remdups_adj (h_positions (outline_polygonHierarchy example_degenerate))) < 3 \<and>
   CoplanarPolygonOutlineGeometry_createGeometry remdups_adj (\<lambda>ps. True)
     (\<lambda>h. [h_positions h]) (map instance_geometry)
     (\<lambda>ps. \<lparr>center = Cartesian3_ZERO, radius = Fin 1\<rparr>) example_degenerate = Inr None"
proof -
  have d: "length (remdups_adj (h_positions (outline_polygonHierarchy example_degenerate))) < 3"
    by (simp add: example_degenerate_def)
  note t = createGeometry_degenerate
    [of remdups_adj example_degenerate "\<lambda>ps. True" "\<lambda>h. [h_positions h]" "map instance_geometry"
        "\<lambda>ps. \<lparr>center = Cartesian3_ZERO, radius = Fin 1\<rparr>"]
  from t d show ?thesis by simp
qed

section \<open>Properties of packing a polygon hierarchy\<close>

lemma holds_at_append:
  "holds_at a i (xs @ ys) = (holds_at a i xs \<and> holds_at a (i + length xs) ys)"
  by (induction xs arbitrary: i) auto

lemma holds_at_nth: "holds_at a i xs \<Longrightarrow> j < length xs \<Longrightarrow> array_get a (i + j) = xs ! j"
proof (induction xs arbitrary: i j)
  case Nil
  then show ?case by simp
next
  case (Cons x xs)
  show ?case
  proof (cases j)
    case 0
    with Cons.prems show ?thesis by simp
  next
    case (Suc k)
    with Cons.prems have "array_get a (Suc i + k) = xs ! k"
      by (intro Cons.IH) auto
    with Suc show ?thesis by simp
  qed
qed

lemma holds_at_frame:
  "\<forall>j. i \<le> j \<and> j < i + length xs \<longrightarrow> array_get b j = array_get a j \<Longrightarrow>
   holds_at a i xs \<Longrightarrow> holds_at b i xs"
proof (induction xs arbitrary: i)
  case Nil
  then show ?case by simp
next
  case (Cons x xs)
  have "holds_at b (Suc i) xs"
    using Cons.prems by (intro Cons.IH) auto
  moreover have "array_get b i = x" using Cons.prems by auto
  ultimately show ?case by simp
qed

lemma holds_at_take_drop:
  assumes "holds_at a i xs" and "i + length xs \<le> length a"
  shows "take (length xs) (drop i a) = xs"
proof (rule nth_equalityI)
  show "length (take (length xs) (drop i a)) = length xs" using assms(2) by simp
next
  fix j assume "j < length (take (length xs) (drop i a))"
  then have j: "j < length xs" by simp
  with assms(2) have "take (length xs) (drop i a) ! j = array_get a (i + j)"
    by (simp add: array_get_def)
  with holds_at_nth [OF assms(1) j] show "take (length xs) (drop i a) ! j = xs ! j" by simp
qed

lemma length_encode_positions: "length (encode_positions ps) = 3 * length ps"
  by (induction ps) auto

lemma length_concat_encode:
  "\<forall>h \<in> set hs. length (encode h) = computeHierarchyPackedLength h \<Longrightarrow>
   length (concat (map encode hs)) = sum_list (map computeHierarchyPackedLength hs)"
  by (induction hs) auto

lemma length_encode: "length (encode h) = computeHierarchyPackedLength h"
proof (induction h)
  case (PolygonHierarchy ps hs)
  then have "length (concat (map encode hs)) = sum_list (map computeHierarchyPackedLength hs)"
    by (intro length_concat_encode) auto
  then show ?case by (simp add: length_encode_positions)
qed


text \<open>
  What pack writes: the packed form of the hierarchy from the start index on, nothing
  before it, and its result is the index after the packed form.
\<close>

lemma packPositions_spec:
  "packPositions ps a i = (b, k) \<Longrightarrow>
   k = i + 3 * length ps \<and> holds_at b i (encode_positions ps) \<and>
   (\<forall>j<i. array_get b j = array_get a j) \<and> length a \<le> length b"
proof (induction ps arbitrary: a i)
  case Nil
  then show ?case by simp
next
  case (Cons p ps)
  let ?a3 = "array_set (array_set (array_set a i (Num (c3_x p))) (i + 1) (Num (c3_y p)))
               (i + 2) (Num (c3_z p))"
  from Cons.prems have "packPositions ps ?a3 (i + 3) = (b, k)" by (simp add: Let_def)
  from Cons.IH [OF this]
  have k: "k = i + 3 + 3 * length ps" and h: "holds_at b (i + 3) (encode_positions ps)"
    and fr: "\<forall>j<i + 3. array_get b j = array_get ?a3 j" and len: "length ?a3 \<le> length b"
    by auto
  have "array_get b i = Num (c3_x p)" "array_get b (Suc i) = Num (c3_y p)"
    "array_get b (Suc (Suc i)) = Num (c3_z p)"
    using fr by (simp_all add: array_get_set)
  moreover have "holds_at b (Suc (Suc (Suc i))) (encode_positions ps)"
    using h by (simp add: numeral_3_eq_3)
  moreover have "\<forall>j<i. array_get b j = array_get a j"
    using fr by (simp add: array_get_set)
  moreover have "length a \<le> length b" using len by (simp add: length_array_set)
  ultimately show ?case using k by simp
qed

lemma pack_holes_spec:
  assumes "\<And>h a i b k. h \<in> set hs \<Longrightarrow> packPolygonHierarchy h a i = (b, k) \<Longrightarrow>
             k = i + length (encode h) \<and> holds_at b i (encode h) \<and>
             (\<forall>j<i. array_get b j = array_get a j) \<and> length a \<le> length b \<and> k \<le> length b"
    and "fold (\<lambda>hole (array, startIndex). packPolygonHierarchy hole array startIndex) hs (a, i) = (b, k)"
  shows "k = i + length (concat (map encode hs)) \<and> holds_at b i (concat (map encode hs)) \<and>
         (\<forall>j<i. array_get b j = array_get a j) \<and> length a \<le> length b \<and>
         (i \<le> length a \<longrightarrow> k \<le> length b)"
  using assms
proof (induction hs arbitrary: a i)
  case Nil
  then show ?case by simp
next
  case (Cons h hs)
  obtain a1 i1 where p: "packPolygonHierarchy h a i = (a1, i1)" by (cases "packPolygonHierarchy h a i")
  from Cons.prems(1) [OF _ p]
  have i1: "i1 = i + length (encode h)" and h1: "holds_at a1 i (encode h)"
    and fr1: "\<forall>j<i. array_get a1 j = array_get a j" and len1: "length a \<le> length a1"
    and le1: "i1 \<le> length a1"
    by auto
  from Cons.prems(2) p
  have f: "fold (\<lambda>hole (array, startIndex). packPolygonHierarchy hole array startIndex) hs (a1, i1) = (b, k)"
    by simp
  have "k = i1 + length (concat (map encode hs)) \<and> holds_at b i1 (concat (map encode hs)) \<and>
         (\<forall>j<i1. array_get b j = array_get a1 j) \<and> length a1 \<le> length b \<and>
         (i1 \<le> length a1 \<longrightarrow> k \<le> length b)"
  proof (rule Cons.IH [OF _ f])
    fix h' a' i' b' k'
    assume "h' \<in> set hs" and "packPolygonHierarchy h' a' i' = (b', k')"
    then show "k' = i' + length (encode h') \<and> holds_at b' i' (encode h') \<and>
        (\<forall>j<i'. array_get b' j = array_get a' j) \<and> length a' \<le> length b' \<and> k' \<le> length b'"
      using Cons.prems(1) [of h' a' i' b' k'] by simp
  qed
  then have k: "k = i1 + length (concat (map encode hs))"
    and h2: "holds_at b i1 (concat (map encode hs))"
    and fr2: "\<forall>j<i1. array_get b j = array_get a1 j" and len2: "length a1 \<le> length b"
    and le2: "k \<le> length b"
    using le1 by auto
  have "holds_at b i (encode h)"
    using h1 fr2 i1 by (intro holds_at_frame [of i "encode h" b a1]) auto
  then have "holds_at b i (concat (map encode (h # hs)))"
    using h2 i1 by (simp add: holds_at_append)
  moreover have "\<forall>j<i. array_get b j = array_get a j"
    using fr1 fr2 i1 by auto
  ultimately show ?case using k i1 len1 len2 le2 by simp
qed

lemma packPolygonHierarchy_spec:
  "packPolygonHierarchy h a i = (b, k) \<Longrightarrow>
   k = i + length (encode h) \<and> holds_at b i (encode h) \<and>
   (\<forall>j<i. array_get b j = array_get a j) \<and> length a \<le> length b \<and> k \<le> length b"
proof (induction h arbitrary: a i b k)
  case (PolygonHierarchy ps hs)
  let ?a0 = "array_set a i (Num (Fin (real (length ps))))"
  obtain a1 i1 where pp: "packPositions ps ?a0 (i + 1) = (a1, i1)"
    by (cases "packPositions ps ?a0 (i + 1)")
  let ?a2 = "array_set a1 i1 (Num (Fin (real (length hs))))"
  from PolygonHierarchy.prems pp
  have f: "fold (\<lambda>hole (array, startIndex). packPolygonHierarchy hole array startIndex) hs
             (?a2, i1 + 1) = (b, k)"
    by (simp add: Let_def)
  from packPositions_spec [OF pp]
  have i1: "i1 = i + 1 + 3 * length ps" and hp: "holds_at a1 (i + 1) (encode_positions ps)"
    and fr1: "\<forall>j<i + 1. array_get a1 j = array_get ?a0 j" and len1: "length ?a0 \<le> length a1"
    by auto
  have "k = (i1 + 1) + length (concat (map encode hs)) \<and>
        holds_at b (i1 + 1) (concat (map encode hs)) \<and>
        (\<forall>j<i1 + 1. array_get b j = array_get ?a2 j) \<and> length ?a2 \<le> length b \<and>
        (i1 + 1 \<le> length ?a2 \<longrightarrow> k \<le> length b)"
    using PolygonHierarchy.IH f by (intro pack_holes_spec) auto
  then have k: "k = (i1 + 1) + length (concat (map encode hs))"
    and hh: "holds_at b (i1 + 1) (concat (map encode hs))"
    and fr2: "\<forall>j<i1 + 1. array_get b j = array_get ?a2 j" and len2: "length ?a2 \<le> length b"
    and le2: "k \<le> length b"
    by (auto simp: length_array_set)
  have g0: "array_get b i = Num (Fin (real (length ps)))"
    using fr2 fr1 i1 by (simp add: array_get_set)
  have "holds_at ?a2 (i + 1) (encode_positions ps)"
    using hp i1 by (intro holds_at_frame [of "i + 1" "encode_positions ps" ?a2 a1])
      (auto simp: array_get_set length_encode_positions)
  then have g1: "holds_at b (Suc i) (encode_positions ps)"
    using fr2 i1 by (intro holds_at_frame [of "Suc i" "encode_positions ps" b ?a2])
      (auto simp: length_encode_positions)
  have g2: "array_get b i1 = Num (Fin (real (length hs)))"
    using fr2 by (simp add: array_get_set)
  have "holds_at b i (encode (PolygonHierarchy ps hs))"
    using g0 g1 g2 hh i1 by (simp add: holds_at_append length_encode_positions)
  moreover have "\<forall>j<i. array_get b j = array_get a j"
    using fr1 fr2 i1 by (simp add: array_get_set)
  moreover have "length a \<le> length b"
    using len1 len2 by (simp add: length_array_set)
  ultimately show ?case using k i1 le2 by (simp add: length_encode_positions)
qed


text \<open>
  What unpack reads: from an array that holds the packed form of a hierarchy, with fuel of
  at least its packed length, the hierarchy and the index after the packed form.
\<close>

lemma count_of_real: "count_of (Num (Fin (real n))) = Some n"
  by simp

lemma unpackPositions_spec:
  "holds_at a i (encode_positions ps) \<Longrightarrow> unpackPositions a i (length ps) = Some ps"
proof (induction ps arbitrary: i)
  case Nil
  then show ?case by simp
next
  case (Cons p ps)
  then have "unpackPositions a (i + 3) (length ps) = Some ps"
    by (intro Cons.IH) (simp add: numeral_3_eq_3)
  with Cons.prems show ?case by simp
qed

lemma unpack_holes_spec:
  assumes "\<And>h fuel' a i. h \<in> set hs \<Longrightarrow> computeHierarchyPackedLength h \<le> fuel' \<Longrightarrow>
             holds_at a i (encode h) \<Longrightarrow>
             unpack_fuel fuel' a i = Some (h, i + length (encode h))"
    and "sum_list (map computeHierarchyPackedLength hs) \<le> fuel"
    and "holds_at a i (concat (map encode hs))"
  shows "unpack_holes fuel a i (length hs) = Some (hs, i + length (concat (map encode hs)))"
  using assms
proof (induction hs arbitrary: i)
  case Nil
  then show ?case by simp
next
  case (Cons h hs)
  from Cons.prems(3) have h1: "holds_at a i (encode h)"
    and h2: "holds_at a (i + length (encode h)) (concat (map encode hs))"
    by (simp_all add: holds_at_append)
  have "unpack_fuel fuel a i = Some (h, i + length (encode h))"
    using Cons.prems(2) h1 by (intro Cons.prems(1)) auto
  moreover have "unpack_holes fuel a (i + length (encode h)) (length hs) =
      Some (hs, i + length (encode h) + length (concat (map encode hs)))"
    using Cons.prems(1,2) h2 by (intro Cons.IH) auto
  ultimately show ?case by (simp add: add.assoc)
qed

lemma unpack_fuel_spec:
  "computeHierarchyPackedLength h \<le> fuel \<Longrightarrow> holds_at a i (encode h) \<Longrightarrow>
   unpack_fuel fuel a i = Some (h, i + length (encode h))"
proof (induction h arbitrary: fuel a i)
  case (PolygonHierarchy ps hs)
  from PolygonHierarchy.prems(1) obtain fuel' where fuel: "fuel = Suc fuel'"
    and le: "sum_list (map computeHierarchyPackedLength hs) \<le> fuel'"
    by (cases fuel) auto
  from PolygonHierarchy.prems(2)
  have g0: "array_get a i = Num (Fin (real (length ps)))"
    and g1: "holds_at a (i + 1) (encode_positions ps)"
    and g2: "array_get a (i + 1 + 3 * length ps) = Num (Fin (real (length hs)))"
    and g3: "holds_at a (i + 1 + 3 * length ps + 1) (concat (map encode hs))"
    by (simp_all add: holds_at_append length_encode_positions)
  have "unpack_holes fuel' a (i + 1 + 3 * length ps + 1) (length hs) =
      Some (hs, i + 1 + 3 * length ps + 1 + length (concat (map encode hs)))"
    using PolygonHierarchy.IH le g3 by (intro unpack_holes_spec) auto
  then show ?case
    using g0 g2 unpackPositions_spec [OF g1] fuel
    by (simp add: count_of_real length_encode_positions del: count_of.simps)
qed

lemma unpack_pack:
  "unpackPolygonHierarchy (fst (packPolygonHierarchy h a i)) i =
     Some (h, i + computeHierarchyPackedLength h)"
proof -
  obtain b k where p: "packPolygonHierarchy h a i = (b, k)" by (cases "packPolygonHierarchy h a i")
  from packPolygonHierarchy_spec [OF p]
  have "holds_at b i (encode h)" "i + length (encode h) \<le> length b" by auto
  then show ?thesis
    using p unpack_fuel_spec [of h "length b" b i]
    by (simp add: unpackPolygonHierarchy_def length_encode)
qed

lemma outline_pack_spec:
  assumes "packPolygonHierarchy (outline_polygonHierarchy g) a i = (b, k)"
  shows "CoplanarPolygonOutlineGeometry_pack g a (Some i) = array_set b k (outline_packedLength g)"
    and "CoplanarPolygonOutlineGeometry_pack g a None =
           array_set (fst (packPolygonHierarchy (outline_polygonHierarchy g) a 0))
             (snd (packPolygonHierarchy (outline_polygonHierarchy g) a 0)) (outline_packedLength g)"
  using assms by (simp_all add: CoplanarPolygonOutlineGeometry_pack_def Let_def split: prod.splits)

lemma outline_roundtrip_index:
  assumes c: "c = CoplanarPolygonOutlineGeometry_pack g a (Some i)"
    and h: "h = outline_polygonHierarchy g"
  shows "holds_at c i (encode h)"
    and "array_get c (i + computeHierarchyPackedLength h) = outline_packedLength g"
    and "i + computeHierarchyPackedLength h + 1 \<le> length c"
    and "unpackPolygonHierarchy c i = Some (h, i + computeHierarchyPackedLength h)"
proof -
  obtain b k where p: "packPolygonHierarchy h a i = (b, k)" by (cases "packPolygonHierarchy h a i")
  from packPolygonHierarchy_spec [OF p]
  have k: "k = i + length (encode h)" and hb: "holds_at b i (encode h)" and le: "k \<le> length b"
    by auto
  have c': "c = array_set b k (outline_packedLength g)"
    using p c h by (simp add: CoplanarPolygonOutlineGeometry_pack_def)
  have fr: "\<forall>j. i \<le> j \<and> j < i + length (encode h) \<longrightarrow> array_get c j = array_get b j"
    using k by (simp add: c' array_get_set)
  show 1: "holds_at c i (encode h)"
    using fr hb by (rule holds_at_frame)
  show "array_get c (i + computeHierarchyPackedLength h) = outline_packedLength g"
    using k by (simp add: c' array_get_set length_encode)
  show 3: "i + computeHierarchyPackedLength h + 1 \<le> length c"
    using k le by (simp add: c' length_array_set length_encode)
  have "computeHierarchyPackedLength h \<le> length c" using 3 by simp
  from unpack_fuel_spec [OF this 1]
  show "unpackPolygonHierarchy c i = Some (h, i + computeHierarchyPackedLength h)"
    by (simp add: unpackPolygonHierarchy_def length_encode)
qed

lemma outline_pack_None:
  "CoplanarPolygonOutlineGeometry_pack g a None = CoplanarPolygonOutlineGeometry_pack g a (Some 0)"
  by (simp add: CoplanarPolygonOutlineGeometry_pack_def)

lemma outline_unpack_None:
  "CoplanarPolygonOutlineGeometry_unpack a None r = CoplanarPolygonOutlineGeometry_unpack a (Some 0) r"
  by (simp add: CoplanarPolygonOutlineGeometry_unpack_def)

lemma outline_unpack_pack:
  "\<exists>r. CoplanarPolygonOutlineGeometry_unpack
          (CoplanarPolygonOutlineGeometry_pack g a (Some i)) (Some i) result = Inr r \<and>
       outline_polygonHierarchy r = outline_polygonHierarchy g \<and>
       outline_packedLength r = outline_packedLength g"
  using outline_roundtrip_index(2,4) [where g = g and a = a and i = i, OF refl refl]
  by (cases result)
    (simp_all add: CoplanarPolygonOutlineGeometry_unpack_def CoplanarPolygonOutlineGeometry_new_def)


text \<open>
  Claim C2. Unpacking what pack wrote gives the hierarchy back, with its rings, its
  positions and its holes in their order at every depth: for the hierarchy alone, with the
  next index that pack returned, and for a CoplanarPolygonOutlineGeometry, whose unpacking
  succeeds and holds the hierarchy of the packed object.
\<close>

theorem polygonHierarchy_pack_unpack_roundtrip:
  "unpackPolygonHierarchy (fst (packPolygonHierarchy h array k)) k =
     Some (h, snd (packPolygonHierarchy h array k)) \<and>
   (\<exists>r. CoplanarPolygonOutlineGeometry_unpack
          (CoplanarPolygonOutlineGeometry_pack g array startingIndex) startingIndex result = Inr r \<and>
        outline_polygonHierarchy r = outline_polygonHierarchy g)"
proof -
  obtain b j where p: "packPolygonHierarchy h array k = (b, j)"
    by (cases "packPolygonHierarchy h array k")
  from packPolygonHierarchy_spec [OF p] have "j = k + computeHierarchyPackedLength h"
    by (simp add: length_encode)
  with p unpack_pack [of h array k]
  have 1: "unpackPolygonHierarchy (fst (packPolygonHierarchy h array k)) k =
     Some (h, snd (packPolygonHierarchy h array k))"
    by simp
  have 2: "\<exists>r. CoplanarPolygonOutlineGeometry_unpack
          (CoplanarPolygonOutlineGeometry_pack g array startingIndex) startingIndex result = Inr r \<and>
        outline_polygonHierarchy r = outline_polygonHierarchy g"
  proof (cases startingIndex)
    case None
    with outline_unpack_pack [of g array 0 result] show ?thesis
      by (auto simp: outline_pack_None outline_unpack_None)
  next
    case (Some i)
    with outline_unpack_pack [of g array i result] show ?thesis by auto
  qed
  from 1 2 show ?thesis ..
qed

theorem polygonHierarchy_pack_unpack_roundtrip_witness:
  "unpackPolygonHierarchy (fst (packPolygonHierarchy example_hierarchy [] 2)) 2 =
     Some (example_hierarchy, 15) \<and>
   (\<exists>r. CoplanarPolygonOutlineGeometry_unpack
          (CoplanarPolygonOutlineGeometry_pack example_outline [] (Some 2)) (Some 2) None = Inr r \<and>
        outline_polygonHierarchy r = example_hierarchy)"
proof -
  note t = polygonHierarchy_pack_unpack_roundtrip
    [of example_hierarchy "[]" 2 example_outline "Some 2" None]
  obtain b k where p: "packPolygonHierarchy example_hierarchy [] 2 = (b, k)"
    by (cases "packPolygonHierarchy example_hierarchy [] 2")
  from packPolygonHierarchy_spec [OF p] have "k = 2 + computeHierarchyPackedLength example_hierarchy"
    by (simp add: length_encode)
  then have "k = 15" by (simp add: example_hierarchy_def example_ring_def)
  with p have s: "snd (packPolygonHierarchy example_hierarchy [] 2) = 15" by simp
  have h: "outline_polygonHierarchy example_outline = example_hierarchy"
    by (simp add: example_outline_def)
  from t show ?thesis unfolding s h .
qed

text \<open>
  Claim C5. The packed length of a constructed CoplanarPolygonOutlineGeometry is the packed
  length of its hierarchy plus 1. \<open>pack\<close> writes the packed hierarchy from the starting
  index on and then, at the next free index, the packed length of the object; \<open>unpack\<close>
  reads this scalar back as the packed length of its result. An absent starting index
  is 0.
\<close>

theorem outline_pack_trailing_packedLength:
  assumes "CoplanarPolygonOutlineGeometry_new (Some h) = Inr g"
  shows "outline_packedLength g = Num (Fin (real (computeHierarchyPackedLength h + 1))) \<and>
         length (encode h) = computeHierarchyPackedLength h \<and>
         take (computeHierarchyPackedLength h)
           (drop i (CoplanarPolygonOutlineGeometry_pack g array (Some i))) = encode h \<and>
         snd (packPolygonHierarchy h array i) = i + computeHierarchyPackedLength h \<and>
         array_get (CoplanarPolygonOutlineGeometry_pack g array (Some i))
           (i + computeHierarchyPackedLength h) = outline_packedLength g \<and>
         (\<exists>r. CoplanarPolygonOutlineGeometry_unpack
                (CoplanarPolygonOutlineGeometry_pack g array (Some i)) (Some i) result = Inr r \<and>
              outline_packedLength r = Num (Fin (real (computeHierarchyPackedLength h + 1)))) \<and>
         CoplanarPolygonOutlineGeometry_pack g array None =
           CoplanarPolygonOutlineGeometry_pack g array (Some 0) \<and>
         CoplanarPolygonOutlineGeometry_unpack array None result =
           CoplanarPolygonOutlineGeometry_unpack array (Some 0) result"
proof -
  from assms have h: "outline_polygonHierarchy g = h"
    and pl: "outline_packedLength g = Num (Fin (real (computeHierarchyPackedLength h + 1)))"
    by (auto simp: CoplanarPolygonOutlineGeometry_new_def)
  note r = outline_roundtrip_index [where g = g and a = array and i = i, OF refl refl, unfolded h]
  have t: "take (computeHierarchyPackedLength h)
           (drop i (CoplanarPolygonOutlineGeometry_pack g array (Some i))) = encode h"
    using holds_at_take_drop [OF r(1)] r(3) by (simp add: length_encode)
  obtain b k where p: "packPolygonHierarchy h array i = (b, k)"
    by (cases "packPolygonHierarchy h array i")
  from packPolygonHierarchy_spec [OF p] p
  have s: "snd (packPolygonHierarchy h array i) = i + computeHierarchyPackedLength h"
    by (simp add: length_encode)
  from outline_unpack_pack [of g array i result] pl
  have u: "\<exists>r. CoplanarPolygonOutlineGeometry_unpack
                (CoplanarPolygonOutlineGeometry_pack g array (Some i)) (Some i) result = Inr r \<and>
              outline_packedLength r = Num (Fin (real (computeHierarchyPackedLength h + 1)))"
    by auto
  show ?thesis
    using pl t s r(2) u outline_pack_None [of g array] outline_unpack_None [of array result]
    by (simp add: length_encode)
qed

lemma example_outline_new: "CoplanarPolygonOutlineGeometry_new (Some example_hierarchy) = Inr example_outline"
  by (simp add: CoplanarPolygonOutlineGeometry_new_def example_outline_def example_hierarchy_def example_ring_def)

theorem outline_pack_trailing_packedLength_witness:
  "CoplanarPolygonOutlineGeometry_new (Some example_hierarchy) = Inr example_outline \<and>
   computeHierarchyPackedLength example_hierarchy = 13 \<and>
   outline_packedLength example_outline = Num (Fin 14) \<and>
   array_get (CoplanarPolygonOutlineGeometry_pack example_outline [] (Some 2)) 15 = Num (Fin 14) \<and>
   (\<exists>r. CoplanarPolygonOutlineGeometry_unpack
          (CoplanarPolygonOutlineGeometry_pack example_outline [] (Some 2)) (Some 2) None = Inr r \<and>
        outline_packedLength r = Num (Fin 14))"
proof -
  have n: "computeHierarchyPackedLength example_hierarchy = 13"
    by (simp add: example_hierarchy_def example_ring_def)
  have pl: "outline_packedLength example_outline = Num (Fin 14)"
    by (simp add: example_outline_def)
  note t = outline_pack_trailing_packedLength
      [of example_hierarchy example_outline 2 "[]" None, OF example_outline_new, unfolded n pl]
  from t have a: "array_get (CoplanarPolygonOutlineGeometry_pack example_outline [] (Some 2)) (2 + 13)
      = Num (Fin 14)"
    by (elim conjE)
  from t have u: "\<exists>r. CoplanarPolygonOutlineGeometry_unpack
          (CoplanarPolygonOutlineGeometry_pack example_outline [] (Some 2)) (Some 2) None = Inr r \<and>
        outline_packedLength r = Num (Fin (real (13 + 1)))"
    by (elim conjE)
  have "(2::nat) + 13 = 15" "real (13 + 1) = 14" by simp_all
  with a u have "array_get (CoplanarPolygonOutlineGeometry_pack example_outline [] (Some 2)) 15
      = Num (Fin 14)"
    "\<exists>r. CoplanarPolygonOutlineGeometry_unpack
          (CoplanarPolygonOutlineGeometry_pack example_outline [] (Some 2)) (Some 2) None = Inr r \<and>
        outline_packedLength r = Num (Fin 14)"
    by (simp_all only:)
  with example_outline_new n pl show ?thesis by (intro conjI)
qed

end
